theory Spec2Isabelle
  imports Complex_Main
begin

section \<open>Layer animation engine of main.js\<close>

text \<open>
  The embedding follows the second (multi-layer) revision of \<^verbatim>\<open>main.js\<close>: the module-level
  variables become the fields of one record, every function becomes a function from state to
  state, and an early \<^verbatim>\<open>return\<close> becomes a branch.  Leaflet layer objects carry an identity
  (\<open>lid\<close>), and the map is the set of identities of the weather overlays attached to it (the
  base map and the marker are never touched by the engine), so that attaching, detaching and
  replacing an overlay object are distinguishable.  The timer queue of the browser is the
  list \<open>intervals\<close> of active \<^verbatim>\<open>setInterval\<close> registrations, and \<open>pendingPrimary\<close> and
  \<open>pendingSecondary\<close> count the requests for \<^verbatim>\<open>maps.json\<close> and \<^verbatim>\<open>satellite.json\<close> that are in
  flight.  Writes to DOM widgets (slider,
  labels, diagnostic text) only display the state and are left out; the page is taken to
  contain the elements the code looks up.
\<close>

subsection \<open>Data\<close>

datatype layer_type = Radar | Satellite | Clouds | Temp

datatype display_mode = Auto | Animated | Static | Off

text \<open>A JavaScript number: the three non-finite values, or a finite value.\<close>

datatype jsnum = NaN | PosInf | NegInf | Num rat

text \<open>
  A JavaScript value as \<^verbatim>\<open>JSON.parse\<close> builds it (plus \<^verbatim>\<open>undefined\<close>, the result of reading
  an absent property).  The fields of an object are listed in the order in which
  \<^verbatim>\<open>Object.values\<close> enumerates them (integer-like keys first and ascending, then the other keys
  as they were inserted), with pairwise distinct keys.
\<close>

datatype jsval =
    JUndefined
  | JNull
  | JBool bool
  | JNum jsnum
  | JStr string
  | JArr "jsval list"
  | JObj "(string \<times> jsval) list"

text \<open>A satellite frame as \<^verbatim>\<open>extractSatelliteFrames\<close> pushes it; \<open>None\<close> is \<^verbatim>\<open>null\<close>.\<close>

record sat_frame =
  path :: string
  time :: "rat option"

text \<open>A frame token: a radar timestamp or a satellite path id.\<close>

datatype token = TNum rat | TStr string

datatype band = Visible | Infrared

datatype tile_url =
    RadarTiles rat int
  | SatelliteTiles token int band
  | StaticTiles string

text \<open>A Leaflet tile layer object; \<open>hd512\<close> records the options added for 512px tiles.\<close>

record layer =
  lid :: nat
  url :: tile_url
  opacity :: rat
  hd512 :: bool

record state =
  currentLayerType :: layer_type
  radarLayer :: "layer option"
  rainFrames :: "rat list"
  satelliteFrames :: "sat_frame list"
  rainLayer :: "layer option"
  frameIndex :: int
  animTimer :: "nat option"
  isPlaying :: bool
  currentMode :: display_mode
  MAX_FRAMES :: int
  FRAME_INTERVAL :: int
  LAYER_OPACITY :: rat
  TILE_SIZE :: int
  mapLayers :: "nat set"
  nextLayerId :: nat
  intervals :: "(nat \<times> int) list"
  nextTimerId :: nat
  pendingPrimary :: nat
  pendingSecondary :: nat

subsection \<open>Layer types and tile templates\<close>

definition LAYER_ALIASES :: "(string \<times> layer_type) list" where
  "LAYER_ALIASES =
     [(''radar'', Radar), (''precip'', Radar), (''precipitation'', Radar), (''rain'', Radar),
      (''satellite'', Satellite), (''visible'', Satellite), (''vis'', Satellite),
      (''clouds'', Clouds), (''cloud'', Clouds), (''ir'', Clouds), (''infrared'', Clouds),
      (''temp'', Temp), (''temperature'', Temp)]"

definition VALID_LAYER_TYPES :: "(string \<times> layer_type) list" where
  "VALID_LAYER_TYPES =
     [(''radar'', Radar), (''satellite'', Satellite), (''clouds'', Clouds), (''temp'', Temp)]"

text \<open>\<^verbatim>\<open>toLowerCase\<close> on the ASCII letters (no other character lowers to one of them
  in a way that produces a key of the tables).\<close>

definition lowerChar :: "char \<Rightarrow> char" where
  "lowerChar c =
     (let n = (of_char c :: nat) in if 65 \<le> n \<and> n \<le> 90 then char_of (n + 32) else c)"

definition toLowerCase :: "string \<Rightarrow> string" where
  "toLowerCase str = map lowerChar str"

definition normalizeLayerType :: "string \<Rightarrow> layer_type" where
  "normalizeLayerType layerType =
     (if layerType = [] then Radar
      else let key = toLowerCase layerType in
        case map_of LAYER_ALIASES key of
          Some t \<Rightarrow> t
        | None \<Rightarrow> (case map_of VALID_LAYER_TYPES key of Some t \<Rightarrow> t | None \<Rightarrow> Radar))"

fun getStaticLayerUrl :: "layer_type \<Rightarrow> tile_url" where
  "getStaticLayerUrl Radar =
     StaticTiles ''https://mesonet.agron.iastate.edu/cache/tile.py/1.0.0/ridge::USCOMP-N0Q-0/{z}/{x}/{y}.png''"
| "getStaticLayerUrl Satellite =
     StaticTiles ''https://mesonet.agron.iastate.edu/cache/tile.py/1.0.0/ridge::GOES-CONUS-VIS-0/{z}/{x}/{y}.png''"
| "getStaticLayerUrl Clouds =
     StaticTiles ''https://mesonet.agron.iastate.edu/cache/tile.py/1.0.0/ridge::GOES-CONUS-13-0/{z}/{x}/{y}.png''"
| "getStaticLayerUrl Temp =
     StaticTiles ''https://mesonet.agron.iastate.edu/cache/tile.py/1.0.0/ridge::GOES-CONUS-13-0/{z}/{x}/{y}.png''"

text \<open>\<^verbatim>\<open>frameToken ? String(frameToken) : '0'\<close>: a falsy token is replaced by \<^verbatim>\<open>'0'\<close>.\<close>

fun pathId :: "token \<Rightarrow> token" where
  "pathId (TStr p) = (if p = [] then TStr ''0'' else TStr p)"
| "pathId (TNum t) = (if t = 0 then TStr ''0'' else TNum t)"

fun rvFrameUrl :: "token \<Rightarrow> int \<Rightarrow> layer_type \<Rightarrow> tile_url" where
  "rvFrameUrl frameToken sz Radar =
     RadarTiles (case frameToken of TNum t \<Rightarrow> t | TStr _ \<Rightarrow> 0) sz"
| "rvFrameUrl frameToken sz Satellite = SatelliteTiles (pathId frameToken) sz Visible"
| "rvFrameUrl frameToken sz Clouds = SatelliteTiles (pathId frameToken) sz Infrared"
| "rvFrameUrl frameToken sz Temp = SatelliteTiles (pathId frameToken) sz Infrared"

subsection \<open>The map binding\<close>

definition hasLayer :: "state \<Rightarrow> layer \<Rightarrow> bool" where
  "hasLayer s l = (lid l \<in> mapLayers s)"

definition removeLayer :: "layer \<Rightarrow> state \<Rightarrow> state" where
  "removeLayer l s = s\<lparr>mapLayers := mapLayers s - {lid l}\<rparr>"

definition addTo :: "layer \<Rightarrow> state \<Rightarrow> state" where
  "addTo l s = s\<lparr>mapLayers := insert (lid l) (mapLayers s)\<rparr>"

text \<open>\<^verbatim>\<open>if (x && map.hasLayer(x)) map.removeLayer(x)\<close>\<close>

definition removeIfOn :: "layer option \<Rightarrow> state \<Rightarrow> state" where
  "removeIfOn lo s =
     (case lo of None \<Rightarrow> s | Some l \<Rightarrow> if hasLayer s l then removeLayer l s else s)"

text \<open>\<^verbatim>\<open>if (x && !map.hasLayer(x)) x.addTo(map)\<close>\<close>

definition addIfOff :: "layer option \<Rightarrow> state \<Rightarrow> state" where
  "addIfOff lo s =
     (case lo of None \<Rightarrow> s | Some l \<Rightarrow> if \<not> hasLayer s l then addTo l s else s)"

text \<open>\<^verbatim>\<open>L.tileLayer(url, opts)\<close>: a new object, not yet on the map.\<close>

definition tileLayer :: "tile_url \<Rightarrow> bool \<Rightarrow> state \<Rightarrow> layer" where
  "tileLayer u big s = \<lparr>lid = nextLayerId s, url = u, opacity = LAYER_OPACITY s, hd512 = big\<rparr>"

subsection \<open>Frames of the active layer type\<close>

text \<open>\<^verbatim>\<open>(currentLayerType === 'radar' ? rainFrames : satelliteFrames).length\<close>\<close>

definition frameCount :: "state \<Rightarrow> nat" where
  "frameCount s =
     (if currentLayerType s = Radar then length (rainFrames s) else length (satelliteFrames s))"

text \<open>The remainder operator \<^verbatim>\<open>%\<close> on integers: the result has the sign of the dividend.\<close>

definition js_rem :: "int \<Rightarrow> int \<Rightarrow> int" where
  "js_rem a b = sgn a * (\<bar>a\<bar> mod \<bar>b\<bar>)"

text \<open>\<^verbatim>\<open>getFrameToken(frames[i], currentLayerType)\<close>; an index outside the array reads
  \<^verbatim>\<open>undefined\<close>, whose token is \<^verbatim>\<open>null\<close> (\<open>None\<close>).\<close>

definition frameTokenAt :: "state \<Rightarrow> int \<Rightarrow> token option" where
  "frameTokenAt s i =
     (if i < 0 \<or> int (frameCount s) \<le> i then None
      else if currentLayerType s = Radar then Some (TNum (rainFrames s ! nat i))
      else Some (TStr (path (satelliteFrames s ! nat i))))"

subsection \<open>Showing a frame, playback, modes\<close>

text \<open>The \<^verbatim>\<open>else\<close> branch of \<^verbatim>\<open>showFrame\<close>: a new animated overlay object, attached
  only under the modes that call for animation.\<close>

definition createRainLayer :: "tile_url \<Rightarrow> state \<Rightarrow> state" where
  "createRainLayer tileUrl s =
     (let fresh = tileLayer tileUrl (TILE_SIZE s = 512) s;
          s1 = s\<lparr>rainLayer := Some fresh, nextLayerId := Suc (nextLayerId s)\<rparr>
      in if currentMode s1 = Animated \<or> currentMode s1 = Auto then addTo fresh s1 else s1)"

text \<open>\<^verbatim>\<open>if (rainLayer && map.hasLayer(rainLayer)) rainLayer.setUrl(tileUrl); else ...\<close>\<close>

definition setUrlOrCreate :: "tile_url \<Rightarrow> state \<Rightarrow> state" where
  "setUrlOrCreate tileUrl s =
     (case rainLayer s of
        None \<Rightarrow> createRainLayer tileUrl s
      | Some l \<Rightarrow>
          if hasLayer s l then s\<lparr>rainLayer := Some (l\<lparr>url := tileUrl\<rparr>)\<rparr>
          else createRainLayer tileUrl s)"

definition showFrame :: "int \<Rightarrow> state \<Rightarrow> state" where
  "showFrame i s =
     (if frameCount s = 0 then s
      else
        let n = int (frameCount s);
            s1 = s\<lparr>frameIndex := js_rem (i + n) n\<rparr>
        in case frameTokenAt s1 (frameIndex s1) of
             None \<Rightarrow> s1
           | Some tok \<Rightarrow>
               setUrlOrCreate (rvFrameUrl tok (TILE_SIZE s1) (currentLayerType s1)) s1)"

text \<open>\<^verbatim>\<open>setInterval\<close> hands out a positive handle, so \<^verbatim>\<open>if (animTimer)\<close> tests for
  a stored handle.\<close>

definition play :: "state \<Rightarrow> state" where
  "play s =
     (if animTimer s \<noteq> None \<or> frameCount s = 0 then s
      else s\<lparr>isPlaying := True,
             animTimer := Some (nextTimerId s),
             intervals := intervals s @ [(nextTimerId s, FRAME_INTERVAL s)],
             nextTimerId := Suc (nextTimerId s)\<rparr>)"

definition clearInterval :: "nat \<Rightarrow> state \<Rightarrow> state" where
  "clearInterval t s = s\<lparr>intervals := filter (\<lambda>r. fst r \<noteq> t) (intervals s)\<rparr>"

definition pause :: "state \<Rightarrow> state" where
  "pause s =
     (let s1 = s\<lparr>isPlaying := False\<rparr> in
      case animTimer s1 of
        None \<Rightarrow> s1
      | Some t \<Rightarrow> (clearInterval t s1)\<lparr>animTimer := None\<rparr>)"

definition setMode :: "display_mode \<Rightarrow> state \<Rightarrow> state" where
  "setMode mode s =
     (let s1 = s\<lparr>currentMode := mode\<rparr> in
      if mode = Off then
        (let s2 = removeIfOn (radarLayer s1) s1 in removeIfOn (rainLayer s2) s2)
      else if mode = Static then
        (let s2 = removeIfOn (rainLayer s1) s1 in addIfOff (radarLayer s2) s2)
      else
        (let s2 = removeIfOn (radarLayer s1) s1 in addIfOff (rainLayer s2) s2))"

definition setResolution :: "int \<Rightarrow> state \<Rightarrow> state" where
  "setResolution sz s =
     (let wasPlaying = isPlaying s;
          s1 = (if wasPlaying then pause s else s);
          s2 = s1\<lparr>TILE_SIZE := sz, FRAME_INTERVAL := (if sz = 512 then 650 else 450)\<rparr>;
          s3 = removeIfOn (rainLayer s2) s2;
          s4 = s3\<lparr>rainLayer := None\<rparr>;
          s5 = showFrame (frameIndex s4) s4;
          s6 = setMode (currentMode s5) s5
      in if wasPlaying then play s6 else s6)"

definition setLayerType :: "string \<Rightarrow> state \<Rightarrow> state" where
  "setLayerType layerType s =
     (let wasPlaying = isPlaying s;
          s1 = (if wasPlaying then pause s else s);
          normalized = normalizeLayerType layerType;
          s2 = s1\<lparr>currentLayerType := normalized\<rparr>;
          s3 = removeIfOn (radarLayer s2) s2;
          s4 = removeIfOn (rainLayer s3) s3;
          s5 = s4\<lparr>radarLayer := Some (tileLayer (getStaticLayerUrl normalized) False s4),
                  nextLayerId := Suc (nextLayerId s4)\<rparr>
      in if 0 < frameCount s5 then
           (let s6 = s5\<lparr>rainLayer := None, frameIndex := int (frameCount s5) - 1\<rparr>;
                s7 = showFrame (frameIndex s6) s6;
                s8 = setMode (currentMode s7) s7
            in if wasPlaying then play s8 else s8)
         else if currentMode s5 = Animated \<or> currentMode s5 = Auto then setMode Static s5
         else
           (let s8 = setMode (currentMode s5) s5
            in if wasPlaying then play s8 else s8))"

text \<open>The callback registered by \<^verbatim>\<open>play\<close>: \<^verbatim>\<open>() => showFrame(frameIndex + 1)\<close>.  It runs
  only while a registration is active.\<close>

definition tick :: "state \<Rightarrow> state" where
  "tick s = (if intervals s = [] then s else showFrame (frameIndex s + 1) s)"

subsection \<open>Reading the feed\<close>

text \<open>Truthiness of a value (\<^verbatim>\<open>!val\<close>, \<^verbatim>\<open>data && ...\<close>).\<close>

fun truthy :: "jsval \<Rightarrow> bool" where
  "truthy JUndefined = False"
| "truthy JNull = False"
| "truthy (JBool b) = b"
| "truthy (JNum n) = (n \<noteq> NaN \<and> n \<noteq> Num 0)"
| "truthy (JStr str) = (str \<noteq> [])"
| "truthy (JArr xs) = True"
| "truthy (JObj kvs) = True"

text \<open>Reading one of the properties the code reads (\<^verbatim>\<open>radar\<close>, \<^verbatim>\<open>past\<close>, \<^verbatim>\<open>nowcast\<close>,
  \<^verbatim>\<open>satellite\<close>, \<^verbatim>\<open>path\<close>, \<^verbatim>\<open>time\<close>) from a value other than \<^verbatim>\<open>null\<close> and
  \<^verbatim>\<open>undefined\<close>: only an object can own one.\<close>

fun getProp :: "jsval \<Rightarrow> string \<Rightarrow> jsval" where
  "getProp (JObj kvs) k = (case map_of kvs k of Some v \<Rightarrow> v | None \<Rightarrow> JUndefined)"
| "getProp v k = JUndefined"

text \<open>\<^verbatim>\<open>Number(v)\<close>.  The conversion of strings, arrays and objects (the engine's
  string-to-number grammar) is the parameter \<open>sn\<close>.\<close>

fun Number :: "(jsval \<Rightarrow> jsnum) \<Rightarrow> jsval \<Rightarrow> jsnum" where
  "Number sn JUndefined = NaN"
| "Number sn JNull = Num 0"
| "Number sn (JBool b) = Num (if b then 1 else 0)"
| "Number sn (JNum n) = n"
| "Number sn v = sn v"

text \<open>\<^verbatim>\<open>f => Number(f.time)\<close>; reading \<^verbatim>\<open>.time\<close> of \<^verbatim>\<open>null\<close> throws a TypeError
  (\<open>None\<close>).\<close>

fun timeNumber :: "(jsval \<Rightarrow> jsnum) \<Rightarrow> jsval \<Rightarrow> jsnum option" where
  "timeNumber sn JNull = None"
| "timeNumber sn JUndefined = None"
| "timeNumber sn f = Some (Number sn (getProp f ''time''))"

text \<open>\<^verbatim>\<open>xs.map(f => Number(f.time))\<close>: the first throw aborts the whole map.\<close>

fun mapTimes :: "(jsval \<Rightarrow> jsnum) \<Rightarrow> jsval list \<Rightarrow> jsnum list option" where
  "mapTimes sn [] = Some []"
| "mapTimes sn (f # fs) =
     (case timeNumber sn f of
        None \<Rightarrow> None
      | Some t \<Rightarrow> (case mapTimes sn fs of None \<Rightarrow> None | Some ts \<Rightarrow> Some (t # ts)))"

text \<open>\<^verbatim>\<open>.filter(Number.isFinite)\<close>\<close>

fun finiteOnly :: "jsnum list \<Rightarrow> rat list" where
  "finiteOnly [] = []"
| "finiteOnly (Num t # ns) = t # finiteOnly ns"
| "finiteOnly (n # ns) = finiteOnly ns"

text \<open>\<^verbatim>\<open>Array.isArray(x) ? x : []\<close>\<close>

fun arrayOrEmpty :: "jsval \<Rightarrow> jsval list" where
  "arrayOrEmpty (JArr xs) = xs"
| "arrayOrEmpty v = []"

text \<open>\<^verbatim>\<open>xs.slice(start)\<close> for an integer \<open>start\<close>: a negative start counts from the end.\<close>

definition slice_from :: "int \<Rightarrow> 'a list \<Rightarrow> 'a list" where
  "slice_from start xs =
     (let n = int (length xs);
          k = (if start < 0 then max (n + start) 0 else min start n)
      in drop (nat k) xs)"

text \<open>The radar block of \<^verbatim>\<open>initRadarAnimation\<close>: the new value of \<^verbatim>\<open>rainFrames\<close>,
  or \<open>None\<close> when the block throws.\<close>

definition radarFrames :: "(jsval \<Rightarrow> jsnum) \<Rightarrow> int \<Rightarrow> jsval \<Rightarrow> rat list option" where
  "radarFrames sn maxFrames data =
     (if truthy data \<and> truthy (getProp data ''radar'') then
        (let radar = getProp data ''radar'';
             past = arrayOrEmpty (getProp radar ''past'');
             nowc = arrayOrEmpty (getProp radar ''nowcast'')
         in case mapTimes sn (past @ nowc) of
              None \<Rightarrow> None
            | Some ts \<Rightarrow> Some (slice_from (- maxFrames) (sort (finiteOnly ts))))
      else
        (case data of
           JArr xs \<Rightarrow> Some (slice_from (- maxFrames) (sort (finiteOnly (map (Number sn) xs))))
         | _ \<Rightarrow> Some []))"

text \<open>The frame pushed for one object, if any: \<^verbatim>\<open>path\<close> must be a string and truthy.\<close>

definition frameOf :: "(jsval \<Rightarrow> jsnum) \<Rightarrow> jsval \<Rightarrow> sat_frame list" where
  "frameOf sn val =
     (case getProp val ''path'' of
        JStr p \<Rightarrow>
          if p \<noteq> [] then
            [\<lparr>path = p,
              time = (case Number sn (getProp val ''time'') of Num t \<Rightarrow> Some t | _ \<Rightarrow> None)\<rparr>]
          else []
      | _ \<Rightarrow> [])"

text \<open>The recursive \<^verbatim>\<open>visit\<close> of \<^verbatim>\<open>extractSatelliteFrames\<close>; the result lists the frames in
  the order they are pushed.\<close>

fun visit :: "(jsval \<Rightarrow> jsnum) \<Rightarrow> jsval \<Rightarrow> sat_frame list"
  and visitEach :: "(jsval \<Rightarrow> jsnum) \<Rightarrow> jsval list \<Rightarrow> sat_frame list"
  and visitValues :: "(jsval \<Rightarrow> jsnum) \<Rightarrow> (string \<times> jsval) list \<Rightarrow> sat_frame list" where
  "visit sn (JArr xs) = visitEach sn xs"
| "visit sn (JObj kvs) = frameOf sn (JObj kvs) @ visitValues sn kvs"
| "visit sn JUndefined = []"
| "visit sn JNull = []"
| "visit sn (JBool b) = []"
| "visit sn (JNum n) = []"
| "visit sn (JStr str) = []"
| "visitEach sn [] = []"
| "visitEach sn (x # xs) = visit sn x @ visitEach sn xs"
| "visitValues sn [] = []"
| "visitValues sn (kv # kvs) = visit sn (snd kv) @ visitValues sn kvs"

text \<open>The loop over \<^verbatim>\<open>frames\<close> with the set \<^verbatim>\<open>seenPaths\<close>.\<close>

fun dedupe :: "string set \<Rightarrow> sat_frame list \<Rightarrow> sat_frame list" where
  "dedupe seenPaths [] = []"
| "dedupe seenPaths (frame # frames) =
     (if path frame = [] \<or> path frame \<in> seenPaths then dedupe seenPaths frames
      else frame # dedupe (insert (path frame) seenPaths) frames)"

text \<open>The sort key of the comparator: \<^verbatim>\<open>Number.isFinite(a.time) ? a.time : 0\<close>.\<close>

definition sortTime :: "sat_frame \<Rightarrow> rat" where
  "sortTime a = (case time a of Some t \<Rightarrow> t | None \<Rightarrow> 0)"

text \<open>\<^verbatim>\<open>Array.prototype.sort\<close> is stable (ECMAScript 2019), as is \<open>sort_key\<close>.\<close>

definition extractSatelliteFrames :: "(jsval \<Rightarrow> jsnum) \<Rightarrow> jsval \<Rightarrow> sat_frame list" where
  "extractSatelliteFrames sn source = sort_key sortTime (dedupe {} (visit sn source))"

text \<open>What a \<^verbatim>\<open>fetch\<close> followed by \<^verbatim>\<open>.json()\<close> can come to.\<close>

datatype response = FetchFails | NotOk | BadJson | Json jsval

text \<open>
  \<^verbatim>\<open>initRadarAnimation\<close> is asynchronous: it runs in up to three pieces, and any other event
  of the page may run between them.  The call itself only issues the request for
  \<^verbatim>\<open>maps.json\<close> and returns at the first \<^verbatim>\<open>await\<close>; no variable of the engine is touched.
\<close>

definition initRadarAnimation :: "state \<Rightarrow> state" where
  "initRadarAnimation s = s\<lparr>pendingPrimary := Suc (pendingPrimary s)\<rparr>"

text \<open>The end of the \<^verbatim>\<open>try\<close> block, from the lookup of the slider on: what is rendered is
  resolved from the frame list of the layer type that is active at that moment.\<close>

definition finishRefresh :: "state \<Rightarrow> state" where
  "finishRefresh s =
     (if 0 < frameCount s then
        (let s3 = showFrame (int (frameCount s) - 1) s;
             s4 = setMode (currentMode s3) s3
         in case radarLayer s4 of
              None \<Rightarrow> s4
            | Some l \<Rightarrow>
                if hasLayer s4 l \<and> (currentMode s4 = Animated \<or> currentMode s4 = Auto)
                then removeLayer l s4 else s4)
      else setMode Static s)"

text \<open>\<^verbatim>\<open>satelliteFrames = satFrames.slice(-MAX_FRAMES)\<close> and what follows it; the cap is read
  when the assignment runs.\<close>

definition storeSatelliteFrames :: "sat_frame list \<Rightarrow> state \<Rightarrow> state" where
  "storeSatelliteFrames satFrames s =
     finishRefresh (s\<lparr>satelliteFrames := slice_from (- MAX_FRAMES s) satFrames\<rparr>)"

text \<open>\<^verbatim>\<open>satFrames\<close> as the primary payload gives it.\<close>

definition primarySatFrames :: "(jsval \<Rightarrow> jsnum) \<Rightarrow> jsval \<Rightarrow> sat_frame list" where
  "primarySatFrames sn data =
     (if truthy data \<and> truthy (getProp data ''satellite'')
      then extractSatelliteFrames sn (getProp data ''satellite'') else [])"

text \<open>\<^verbatim>\<open>satFrames\<close> as the request for \<^verbatim>\<open>satellite.json\<close> gives it: a failure of the request
  or of the parse is caught, an error status is logged, and both leave the empty list.\<close>

fun secondarySatFrames :: "(jsval \<Rightarrow> jsnum) \<Rightarrow> response \<Rightarrow> sat_frame list" where
  "secondarySatFrames sn (Json satelliteData) = extractSatelliteFrames sn satelliteData"
| "secondarySatFrames sn r = []"

text \<open>The function resumed with the answer to the request for \<^verbatim>\<open>maps.json\<close>, which is then no
  longer in flight.  Between the arrival of the response and the parsed body the code awaits
  again, but it reads and writes no variable of the engine in between, so the two are one step
  here.  A failed request, an error status, an unreadable body and a throw inside the radar
  block all end in \<^verbatim>\<open>setMode('static')\<close>.  Otherwise \<^verbatim>\<open>rainFrames\<close> is stored; when the payload
  carries satellite frames the function runs to its end, and when it carries none it issues
  the request for \<^verbatim>\<open>satellite.json\<close> and is suspended again.\<close>

definition initRadarAnimation_afterPrimary ::
  "(jsval \<Rightarrow> jsnum) \<Rightarrow> response \<Rightarrow> state \<Rightarrow> state" where
  "initRadarAnimation_afterPrimary sn r s =
     (let s0 = s\<lparr>pendingPrimary := pendingPrimary s - 1\<rparr> in
      case r of
        FetchFails \<Rightarrow> setMode Static s0
      | NotOk \<Rightarrow> setMode Static s0
      | BadJson \<Rightarrow> setMode Static s0
      | Json data \<Rightarrow>
          (case radarFrames sn (MAX_FRAMES s0) data of
             None \<Rightarrow> setMode Static s0
           | Some frames \<Rightarrow>
               (let s1 = s0\<lparr>rainFrames := frames\<rparr>;
                    satFrames = primarySatFrames sn data
                in if satFrames = [] then s1\<lparr>pendingSecondary := Suc (pendingSecondary s1)\<rparr>
                   else storeSatelliteFrames satFrames s1)))"

text \<open>The function resumed with the answer to the request for \<^verbatim>\<open>satellite.json\<close>, which is
  then no longer in flight.\<close>

definition initRadarAnimation_afterSecondary ::
  "(jsval \<Rightarrow> jsnum) \<Rightarrow> response \<Rightarrow> state \<Rightarrow> state" where
  "initRadarAnimation_afterSecondary sn r s =
     storeSatelliteFrames (secondarySatFrames sn r) (s\<lparr>pendingSecondary := pendingSecondary s - 1\<rparr>)"

subsection \<open>The controls\<close>

text \<open>\<^verbatim>\<open>parseInt(e.target.value, 10) || d\<close>; the parse result is an integer or \<^verbatim>\<open>NaN\<close>
  (\<open>None\<close>), and both \<^verbatim>\<open>NaN\<close> and 0 are falsy.\<close>

fun orDefault :: "int option \<Rightarrow> int \<Rightarrow> int" where
  "orDefault None d = d"
| "orDefault (Some n) d = (if n = 0 then d else n)"

text \<open>The device: \<^verbatim>\<open>navigator.deviceMemory\<close> (possibly absent) and whether the user-agent
  string matches \<^verbatim>\<open>/Mobi|Android/i\<close>.\<close>

record navigator =
  deviceMemory :: "rat option"
  mobileAgent :: bool

definition DEVICE_MEM :: "navigator \<Rightarrow> rat" where
  "DEVICE_MEM nav =
     (case deviceMemory nav of None \<Rightarrow> 4 | Some m \<Rightarrow> if m = 0 then 4 else m)"

definition RECOMMENDED_MAX_FRAMES :: "navigator \<Rightarrow> int" where
  "RECOMMENDED_MAX_FRAMES nav =
     min 60 (if mobileAgent nav then 24
             else if 8 \<le> DEVICE_MEM nav then 48
             else if 4 \<le> DEVICE_MEM nav then 36 else 24)"

definition maxFramesInput :: "navigator \<Rightarrow> int option \<Rightarrow> state \<Rightarrow> state" where
  "maxFramesInput nav parsed s =
     s\<lparr>MAX_FRAMES := max 6 (min 60 (orDefault parsed (RECOMMENDED_MAX_FRAMES nav)))\<rparr>"

text \<open>\<^verbatim>\<open>pause(); initRadarAnimation();\<close>: the handler returns once the request is issued.\<close>

definition maxFramesChange :: "state \<Rightarrow> state" where
  "maxFramesChange s = initRadarAnimation (pause s)"

definition playBtnClick :: "state \<Rightarrow> state" where
  "playBtnClick s = (if isPlaying s then pause s else play s)"

definition frameSliderInput :: "int option \<Rightarrow> state \<Rightarrow> state" where
  "frameSliderInput parsed s = showFrame (orDefault parsed 0) (pause s)"

definition speedSliderInput :: "int option \<Rightarrow> state \<Rightarrow> state" where
  "speedSliderInput parsed s =
     (let s1 = s\<lparr>FRAME_INTERVAL := max 120 (min 800 (orDefault parsed 450))\<rparr>
      in if isPlaying s1 then play (pause s1) else s1)"

definition setRadarOpacity :: "rat \<Rightarrow> state \<Rightarrow> state" where
  "setRadarOpacity v s =
     s\<lparr>LAYER_OPACITY := v,
       radarLayer := map_option (\<lambda>l. l\<lparr>opacity := v\<rparr>) (radarLayer s),
       rainLayer := map_option (\<lambda>l. l\<lparr>opacity := v\<rparr>) (rainLayer s)\<rparr>"

definition opacitySliderInput :: "int option \<Rightarrow> state \<Rightarrow> state" where
  "opacitySliderInput parsed s =
     setRadarOpacity (of_int (max 20 (min 100 (orDefault parsed 60))) / 100) s"

text \<open>The events the page can deliver to the engine: the controls, the timer, direct calls
  of \<^verbatim>\<open>play\<close> and \<^verbatim>\<open>pause\<close>, and the answers to requests that are in flight (an answer
  arrives only to a request that was issued).  The refresh button runs \<^verbatim>\<open>initialLoad\<close>, as the
  start of the page does.\<close>

datatype event =
    LayerSelect string
  | PlayBtn
  | FrameSlider "int option"
  | MaxFramesInput "int option"
  | MaxFramesChange
  | SpeedSlider "int option"
  | OpacitySlider "int option"
  | ResStd
  | ResHd
  | ModeBtn display_mode
  | RefreshBtn
  | PrimaryArrives response
  | SecondaryArrives response
  | TimerFires
  | CallPlay
  | CallPause

fun handle :: "navigator \<Rightarrow> (jsval \<Rightarrow> jsnum) \<Rightarrow> event \<Rightarrow> state \<Rightarrow> state" where
  "handle nav sn (LayerSelect v) s = setLayerType v s"
| "handle nav sn PlayBtn s = playBtnClick s"
| "handle nav sn (FrameSlider p) s = frameSliderInput p s"
| "handle nav sn (MaxFramesInput p) s = maxFramesInput nav p s"
| "handle nav sn MaxFramesChange s = maxFramesChange s"
| "handle nav sn (SpeedSlider p) s = speedSliderInput p s"
| "handle nav sn (OpacitySlider p) s = opacitySliderInput p s"
| "handle nav sn ResStd s = setResolution 256 s"
| "handle nav sn ResHd s = setResolution 512 s"
| "handle nav sn (ModeBtn m) s = setMode m s"
| "handle nav sn RefreshBtn s = initRadarAnimation s"
| "handle nav sn (PrimaryArrives r) s =
     (if pendingPrimary s = 0 then s else initRadarAnimation_afterPrimary sn r s)"
| "handle nav sn (SecondaryArrives r) s =
     (if pendingSecondary s = 0 then s else initRadarAnimation_afterSecondary sn r s)"
| "handle nav sn TimerFires s = tick s"
| "handle nav sn CallPlay s = play s"
| "handle nav sn CallPause s = pause s"

fun run :: "navigator \<Rightarrow> (jsval \<Rightarrow> jsnum) \<Rightarrow> event list \<Rightarrow> state \<Rightarrow> state" where
  "run nav sn [] s = s"
| "run nav sn (e # es) s = run nav sn es (handle nav sn e s)"

text \<open>The state once the script is loaded and \<^verbatim>\<open>initMap\<close> has attached the static radar
  overlay; \<^verbatim>\<open>initialLoad\<close>, which comes next, is the event \<open>RefreshBtn\<close>.\<close>

definition initMap :: "navigator \<Rightarrow> state" where
  "initMap nav =
     \<lparr>currentLayerType = Radar,
      radarLayer = Some \<lparr>lid = 0, url = getStaticLayerUrl Radar, opacity = 3 / 5, hd512 = False\<rparr>,
      rainFrames = [],
      satelliteFrames = [],
      rainLayer = None,
      frameIndex = 0,
      animTimer = None,
      isPlaying = False,
      currentMode = Auto,
      MAX_FRAMES = RECOMMENDED_MAX_FRAMES nav,
      FRAME_INTERVAL = 450,
      LAYER_OPACITY = 3 / 5,
      TILE_SIZE = 256,
      mapLayers = {0},
      nextLayerId = 1,
      intervals = [],
      nextTimerId = 1,
      pendingPrimary = 0,
      pendingSecondary = 0\<rparr>"

subsection \<open>Example inputs\<close>

text \<open>A desktop browser that does not report its memory.\<close>

definition exampleNav :: navigator where
  "exampleNav = \<lparr>deviceMemory = None, mobileAgent = False\<rparr>"

text \<open>A string-to-number conversion under which no string, array or object is numeric.\<close>

definition notNumeric :: "jsval \<Rightarrow> jsnum" where
  "notNumeric v = NaN"

text \<open>A timestamp record \<^verbatim>\<open>{time: t}\<close>.\<close>

definition stamp :: "rat \<Rightarrow> jsval" where
  "stamp t = JObj [(''time'', JNum (Num t))]"

text \<open>The radar scenario: \<^verbatim>\<open>{radar: {past: [100, 200, 300], nowcast: [400]}}\<close>, each
  entry a timestamp record.\<close>

definition radarScenario :: jsval where
  "radarScenario =
     JObj [(''radar'', JObj [(''past'', JArr [stamp 100, stamp 200, stamp 300]),
                             (''nowcast'', JArr [stamp 400])])]"

text \<open>The state after the radar scenario has been loaded on the initial page (the events
  \<open>firstLoad\<close> below lead to it): four radar frames, the animated overlay attached, the static
  one detached.\<close>

definition loadedState :: state where
  "loadedState =
     \<lparr>currentLayerType = Radar,
      radarLayer = Some \<lparr>lid = 0, url = getStaticLayerUrl Radar, opacity = 3 / 5, hd512 = False\<rparr>,
      rainFrames = [100, 200, 300, 400],
      satelliteFrames = [],
      rainLayer = Some \<lparr>lid = 1, url = RadarTiles 400 256, opacity = 3 / 5, hd512 = False\<rparr>,
      frameIndex = 3,
      animTimer = None,
      isPlaying = False,
      currentMode = Auto,
      MAX_FRAMES = 36,
      FRAME_INTERVAL = 450,
      LAYER_OPACITY = 3 / 5,
      TILE_SIZE = 256,
      mapLayers = {1},
      nextLayerId = 2,
      intervals = [],
      nextTimerId = 1,
      pendingPrimary = 0,
      pendingSecondary = 0\<rparr>"

text \<open>The same state with playback running.\<close>

definition playingState :: state where
  "playingState =
     loadedState\<lparr>isPlaying := True, animTimer := Some 1, intervals := [(1, 450)],
                 nextTimerId := 2\<rparr>"

text \<open>The satellite scenario: three frame objects whose paths are \<^verbatim>\<open>a\<close>, \<^verbatim>\<open>b\<close>, \<^verbatim>\<open>a\<close>.\<close>

definition examplePaths :: jsval where
  "examplePaths =
     JArr [JObj [(''path'', JStr ''a''), (''time'', JNum (Num 30))],
           JObj [(''path'', JStr ''b''), (''time'', JNum (Num 10))],
           JObj [(''path'', JStr ''a''), (''time'', JNum (Num 20))]]"

text \<open>A radar feed of seven timestamp records, out of order, and a satellite feed of eight
  frame objects with seven distinct paths under two keys: one more than the smallest cap the
  page can hold.\<close>

definition sevenStamps :: jsval where
  "sevenStamps =
     JObj [(''radar'', JObj [(''past'', JArr [stamp 700, stamp 100, stamp 200, stamp 300,
                                              stamp 400, stamp 500]),
                             (''nowcast'', JArr [stamp 600])])]"

definition frameObject :: "string \<Rightarrow> rat \<Rightarrow> jsval" where
  "frameObject p t = JObj [(''path'', JStr p), (''time'', JNum (Num t))]"

definition sevenPaths :: jsval where
  "sevenPaths =
     JObj [(''infrared'', JArr [frameObject ''a'' 70, frameObject ''b'' 10,
                                frameObject ''c'' 20, frameObject ''a'' 5]),
           (''visible'', JArr [frameObject ''d'' 30, frameObject ''e'' 40,
                               frameObject ''f'' 50, frameObject ''g'' 60])]"

text \<open>The radar scenario together with the satellite scenario, in one payload.\<close>

definition fullScenario :: jsval where
  "fullScenario =
     JObj [(''radar'', JObj [(''past'', JArr [stamp 100, stamp 200, stamp 300]),
                             (''nowcast'', JArr [stamp 400])]),
           (''satellite'', examplePaths)]"

text \<open>The events of a first load that finds the radar scenario and no satellite frames: the
  page asks for the feed, the feed arrives, and the request for \<^verbatim>\<open>satellite.json\<close> is answered
  with an error status.\<close>

definition firstLoad :: "event list" where
  "firstLoad = [RefreshBtn, PrimaryArrives (Json radarScenario), SecondaryArrives NotOk]"

text \<open>The events of a load that finds a feed without frames.\<close>

definition emptyLoad :: "event list" where
  "emptyLoad = [RefreshBtn, PrimaryArrives (Json (JObj [])), SecondaryArrives NotOk]"

subsection \<open>Derived notions\<close>

text \<open>The recurring registrations of the browser are exactly the handle stored in
  \<^verbatim>\<open>animTimer\<close>: none when it is \<^verbatim>\<open>null\<close>, one otherwise.\<close>

definition oneTimer :: "state \<Rightarrow> bool" where
  "oneTimer s = (map fst (intervals s) = (case animTimer s of None \<Rightarrow> [] | Some t \<Rightarrow> [t]))"

text \<open>The flag \<^verbatim>\<open>isPlaying\<close> and the stored handle agree: playback is marked as running
  exactly when a handle is stored.\<close>

definition flagAgrees :: "state \<Rightarrow> bool" where
  "flagAgrees s = (isPlaying s = (animTimer s \<noteq> None))"

text \<open>\<^verbatim>\<open>Number.isFinite\<close> on a number.\<close>

fun isFinite :: "jsnum \<Rightarrow> bool" where
  "isFinite (Num t) = True"
| "isFinite n = False"

text \<open>The \<^verbatim>\<open>time\<close> stored in a pushed frame: the number when it is finite, else \<^verbatim>\<open>null\<close>.\<close>

definition finiteTime :: "jsnum \<Rightarrow> rat option" where
  "finiteTime n = (case n of Num t \<Rightarrow> Some t | _ \<Rightarrow> None)"

text \<open>Every value nested in a payload, the payload itself first: the elements of an array by
  index and the values of an object in the order of \<^verbatim>\<open>Object.values\<close>, each followed by what is
  nested in it.  This follows the specification's wording (``recursively visit all nested
  values'') and not the code: it is what the traversal of \<^verbatim>\<open>extractSatelliteFrames\<close> is
  compared with.\<close>

fun nestedValues :: "jsval \<Rightarrow> jsval list"
  and nestedOfEach :: "jsval list \<Rightarrow> jsval list"
  and nestedOfFields :: "(string \<times> jsval) list \<Rightarrow> jsval list" where
  "nestedValues (JArr xs) = JArr xs # nestedOfEach xs"
| "nestedValues (JObj kvs) = JObj kvs # nestedOfFields kvs"
| "nestedValues JUndefined = [JUndefined]"
| "nestedValues JNull = [JNull]"
| "nestedValues (JBool b) = [JBool b]"
| "nestedValues (JNum n) = [JNum n]"
| "nestedValues (JStr str) = [JStr str]"
| "nestedOfEach [] = []"
| "nestedOfEach (x # xs) = nestedValues x @ nestedOfEach xs"
| "nestedOfFields [] = []"
| "nestedOfFields (kv # kvs) = nestedValues (snd kv) @ nestedOfFields kvs"

text \<open>The effective render state: which of the two overlays is attached to the map.\<close>

datatype render_state = RenderedOff | RenderedStatic | RenderedAnimated | RenderedBoth

definition staticOn :: "state \<Rightarrow> bool" where
  "staticOn s = (case radarLayer s of None \<Rightarrow> False | Some l \<Rightarrow> hasLayer s l)"

definition animatedOn :: "state \<Rightarrow> bool" where
  "animatedOn s = (case rainLayer s of None \<Rightarrow> False | Some l \<Rightarrow> hasLayer s l)"

definition effective :: "state \<Rightarrow> render_state" where
  "effective s =
     (if staticOn s then (if animatedOn s then RenderedBoth else RenderedStatic)
      else if animatedOn s then RenderedAnimated else RenderedOff)"

text \<open>Well-formed overlay bookkeeping: the identities of the two stored overlay objects are
  already allocated and differ, and nothing but these two objects is attached to the map.
  It holds on the initial page and is kept by every event (\<open>layers_wf_reachable\<close> below),
  and so does the existence of a static overlay object (\<open>static_overlay_reachable\<close>).\<close>

definition layers_wf :: "state \<Rightarrow> bool" where
  "layers_wf s =
     ((\<forall>l. radarLayer s = Some l \<longrightarrow> lid l < nextLayerId s) \<and>
      (\<forall>l. rainLayer s = Some l \<longrightarrow> lid l < nextLayerId s) \<and>
      (\<forall>a b. radarLayer s = Some a \<and> rainLayer s = Some b \<longrightarrow> lid a \<noteq> lid b) \<and>
      (\<forall>i \<in> mapLayers s. (\<exists>l. radarLayer s = Some l \<and> lid l = i) \<or>
                           (\<exists>l. rainLayer s = Some l \<and> lid l = i)))"

section \<open>Properties\<close>

subsection \<open>Fields each operation leaves alone\<close>

lemma js_rem_nonneg: "0 \<le> a \<Longrightarrow> 0 < b \<Longrightarrow> js_rem a b = a mod b"
  by (cases "a = 0") (simp_all add: js_rem_def)

lemmas map_ops = hasLayer_def removeLayer_def addTo_def removeIfOn_def addIfOff_def tileLayer_def

lemma setUrlOrCreate_keeps:
  "currentLayerType (setUrlOrCreate u s) = currentLayerType s"
  "rainFrames (setUrlOrCreate u s) = rainFrames s"
  "satelliteFrames (setUrlOrCreate u s) = satelliteFrames s"
  "frameIndex (setUrlOrCreate u s) = frameIndex s"
  "animTimer (setUrlOrCreate u s) = animTimer s"
  "isPlaying (setUrlOrCreate u s) = isPlaying s"
  "currentMode (setUrlOrCreate u s) = currentMode s"
  "MAX_FRAMES (setUrlOrCreate u s) = MAX_FRAMES s"
  "FRAME_INTERVAL (setUrlOrCreate u s) = FRAME_INTERVAL s"
  "LAYER_OPACITY (setUrlOrCreate u s) = LAYER_OPACITY s"
  "TILE_SIZE (setUrlOrCreate u s) = TILE_SIZE s"
  "intervals (setUrlOrCreate u s) = intervals s"
  "nextTimerId (setUrlOrCreate u s) = nextTimerId s"
  "radarLayer (setUrlOrCreate u s) = radarLayer s"
  by (simp_all add: setUrlOrCreate_def createRainLayer_def Let_def map_ops split: option.split)

lemma showFrame_keeps:
  "currentLayerType (showFrame i s) = currentLayerType s"
  "rainFrames (showFrame i s) = rainFrames s"
  "satelliteFrames (showFrame i s) = satelliteFrames s"
  "animTimer (showFrame i s) = animTimer s"
  "isPlaying (showFrame i s) = isPlaying s"
  "currentMode (showFrame i s) = currentMode s"
  "MAX_FRAMES (showFrame i s) = MAX_FRAMES s"
  "FRAME_INTERVAL (showFrame i s) = FRAME_INTERVAL s"
  "LAYER_OPACITY (showFrame i s) = LAYER_OPACITY s"
  "TILE_SIZE (showFrame i s) = TILE_SIZE s"
  "intervals (showFrame i s) = intervals s"
  "nextTimerId (showFrame i s) = nextTimerId s"
  "radarLayer (showFrame i s) = radarLayer s"
  by (simp_all add: showFrame_def Let_def setUrlOrCreate_keeps split: option.split)

lemma showFrame_frameCount: "frameCount (showFrame i s) = frameCount s"
  by (simp add: frameCount_def showFrame_keeps)

lemma showFrame_frameIndex:
  "frameIndex (showFrame i s) =
     (if frameCount s = 0 then frameIndex s
      else js_rem (i + int (frameCount s)) (int (frameCount s)))"
  by (simp add: showFrame_def Let_def setUrlOrCreate_keeps split: option.split)

lemma setMode_keeps:
  "currentLayerType (setMode m s) = currentLayerType s"
  "rainFrames (setMode m s) = rainFrames s"
  "satelliteFrames (setMode m s) = satelliteFrames s"
  "frameIndex (setMode m s) = frameIndex s"
  "animTimer (setMode m s) = animTimer s"
  "isPlaying (setMode m s) = isPlaying s"
  "currentMode (setMode m s) = m"
  "MAX_FRAMES (setMode m s) = MAX_FRAMES s"
  "FRAME_INTERVAL (setMode m s) = FRAME_INTERVAL s"
  "LAYER_OPACITY (setMode m s) = LAYER_OPACITY s"
  "TILE_SIZE (setMode m s) = TILE_SIZE s"
  "intervals (setMode m s) = intervals s"
  "nextTimerId (setMode m s) = nextTimerId s"
  "radarLayer (setMode m s) = radarLayer s"
  "rainLayer (setMode m s) = rainLayer s"
  "nextLayerId (setMode m s) = nextLayerId s"
  by (simp_all add: setMode_def Let_def map_ops split: option.split)

lemma setMode_frameCount: "frameCount (setMode m s) = frameCount s"
  by (simp add: frameCount_def setMode_keeps)

lemma pause_keeps:
  "currentLayerType (pause s) = currentLayerType s"
  "rainFrames (pause s) = rainFrames s"
  "satelliteFrames (pause s) = satelliteFrames s"
  "frameIndex (pause s) = frameIndex s"
  "animTimer (pause s) = None"
  "isPlaying (pause s) = False"
  "currentMode (pause s) = currentMode s"
  "MAX_FRAMES (pause s) = MAX_FRAMES s"
  "FRAME_INTERVAL (pause s) = FRAME_INTERVAL s"
  "LAYER_OPACITY (pause s) = LAYER_OPACITY s"
  "TILE_SIZE (pause s) = TILE_SIZE s"
  "nextTimerId (pause s) = nextTimerId s"
  "radarLayer (pause s) = radarLayer s"
  "rainLayer (pause s) = rainLayer s"
  "nextLayerId (pause s) = nextLayerId s"
  "mapLayers (pause s) = mapLayers s"
  by (simp_all add: pause_def clearInterval_def Let_def split: option.split)

lemma pause_frameCount: "frameCount (pause s) = frameCount s"
  by (simp add: frameCount_def pause_keeps)

lemma play_keeps:
  "currentLayerType (play s) = currentLayerType s"
  "rainFrames (play s) = rainFrames s"
  "satelliteFrames (play s) = satelliteFrames s"
  "frameIndex (play s) = frameIndex s"
  "currentMode (play s) = currentMode s"
  "MAX_FRAMES (play s) = MAX_FRAMES s"
  "FRAME_INTERVAL (play s) = FRAME_INTERVAL s"
  "LAYER_OPACITY (play s) = LAYER_OPACITY s"
  "TILE_SIZE (play s) = TILE_SIZE s"
  "radarLayer (play s) = radarLayer s"
  "rainLayer (play s) = rainLayer s"
  "nextLayerId (play s) = nextLayerId s"
  "mapLayers (play s) = mapLayers s"
  by (simp_all add: play_def)

lemma play_frameCount: "frameCount (play s) = frameCount s"
  by (simp add: frameCount_def play_keeps)

lemma play_isPlaying:
  "isPlaying (play s) = (isPlaying s \<or> (animTimer s = None \<and> 0 < frameCount s))"
  by (auto simp add: play_def)

lemma removeIfOn_keeps:
  "currentLayerType (removeIfOn lo s) = currentLayerType s"
  "rainFrames (removeIfOn lo s) = rainFrames s"
  "satelliteFrames (removeIfOn lo s) = satelliteFrames s"
  "frameIndex (removeIfOn lo s) = frameIndex s"
  "animTimer (removeIfOn lo s) = animTimer s"
  "isPlaying (removeIfOn lo s) = isPlaying s"
  "currentMode (removeIfOn lo s) = currentMode s"
  "MAX_FRAMES (removeIfOn lo s) = MAX_FRAMES s"
  "FRAME_INTERVAL (removeIfOn lo s) = FRAME_INTERVAL s"
  "LAYER_OPACITY (removeIfOn lo s) = LAYER_OPACITY s"
  "TILE_SIZE (removeIfOn lo s) = TILE_SIZE s"
  "intervals (removeIfOn lo s) = intervals s"
  "nextTimerId (removeIfOn lo s) = nextTimerId s"
  "radarLayer (removeIfOn lo s) = radarLayer s"
  "rainLayer (removeIfOn lo s) = rainLayer s"
  "nextLayerId (removeIfOn lo s) = nextLayerId s"
  by (simp_all add: map_ops split: option.split)

lemma removeIfOn_frameCount: "frameCount (removeIfOn lo s) = frameCount s"
  by (simp add: frameCount_def removeIfOn_keeps)

lemmas keeps = showFrame_keeps setMode_keeps pause_keeps play_keeps removeIfOn_keeps
  showFrame_frameCount setMode_frameCount pause_frameCount play_frameCount removeIfOn_frameCount

subsection \<open>Showing a frame\<close>

text \<open>
  Claim C10.  For every index \<open>i\<close>, \<^verbatim>\<open>showFrame(i)\<close> called while the frame list of the active
  layer type is empty returns the state it was given: the frame index keeps its value, no
  animated overlay object is created, and the set of overlays attached to the map is the
  same.
\<close>

theorem showFrame_empty_unchanged:
  "frameCount s = 0 \<Longrightarrow>
     showFrame i s = s \<and> frameIndex (showFrame i s) = frameIndex s \<and>
     rainLayer (showFrame i s) = rainLayer s \<and> mapLayers (showFrame i s) = mapLayers s"
  by (simp add: showFrame_def)

theorem showFrame_empty_unchanged_witness:
  "frameCount (initMap exampleNav) = 0 \<and>
   showFrame 5 (initMap exampleNav) = initMap exampleNav \<and>
   rainLayer (showFrame 5 (initMap exampleNav)) = None"
  using showFrame_empty_unchanged [of "initMap exampleNav" 5]
  by (simp add: frameCount_def initMap_def)

text \<open>
  Claim C6.  Let the active frame list have length \<open>N > 0\<close> and let the frame index be within
  \<open>0 .. N - 1\<close>.  Showing the frame at distance \<open>d\<close> from the current one (for any \<open>d \<ge> -N\<close>,
  so for \<open>+1\<close> and \<open>-1\<close>) sets the index to \<open>(frameIndex + d) mod N\<close>; from \<open>N - 1\<close> a step of
  \<open>+1\<close> gives 0, from 0 a step of \<open>-1\<close> gives \<open>N - 1\<close>; and the timer callback is the step
  of \<open>+1\<close>.
\<close>

theorem showFrame_circular:
  assumes "0 < frameCount s" and "0 \<le> frameIndex s" and "frameIndex s < int (frameCount s)"
  shows "(- int (frameCount s) \<le> d \<longrightarrow>
            frameIndex (showFrame (frameIndex s + d) s) = (frameIndex s + d) mod int (frameCount s))
       \<and> (frameIndex s = int (frameCount s) - 1 \<longrightarrow>
            frameIndex (showFrame (frameIndex s + 1) s) = 0)
       \<and> (frameIndex s = 0 \<longrightarrow>
            frameIndex (showFrame (frameIndex s - 1) s) = int (frameCount s) - 1)
       \<and> (intervals s \<noteq> [] \<longrightarrow>
            frameIndex (tick s) = (frameIndex s + 1) mod int (frameCount s))"
proof -
  let ?n = "int (frameCount s)"
  have pos: "0 < ?n" using assms(1) by simp
  have step: "frameIndex (showFrame (frameIndex s + e) s) = (frameIndex s + e) mod ?n"
    if "- ?n \<le> e" for e
  proof -
    have "0 \<le> frameIndex s + e + ?n" using that assms(2) by linarith
    then have "js_rem (frameIndex s + e + ?n) ?n = (frameIndex s + e + ?n) mod ?n"
      using pos by (rule js_rem_nonneg)
    then show ?thesis using assms(1) by (simp add: showFrame_frameIndex)
  qed
  have up: "frameIndex (showFrame (frameIndex s + 1) s) = (frameIndex s + 1) mod ?n"
    using step [of 1] pos by simp
  have down: "frameIndex (showFrame (frameIndex s - 1) s) = (frameIndex s - 1) mod ?n"
    using step [of "-1"] pos by simp
  have wrap_up: "frameIndex (showFrame (frameIndex s + 1) s) = 0" if "frameIndex s = ?n - 1"
    using up that by simp
  have wrap_down: "frameIndex (showFrame (frameIndex s - 1) s) = ?n - 1" if "frameIndex s = 0"
  proof -
    have "(- 1) mod ?n = ?n - 1" using pos by (simp add: zmod_minus1)
    then show ?thesis using down that by simp
  qed
  have tk: "frameIndex (tick s) = (frameIndex s + 1) mod ?n" if "intervals s \<noteq> []"
    using up that by (simp add: tick_def)
  show ?thesis using step [of d] wrap_up wrap_down tk by blast
qed

theorem showFrame_circular_witness:
  "0 < frameCount playingState \<and> 0 \<le> frameIndex playingState \<and>
   frameIndex playingState < int (frameCount playingState) \<and>
   frameIndex playingState = int (frameCount playingState) - 1 \<and>
   intervals playingState \<noteq> [] \<and>
   frameIndex (showFrame (frameIndex playingState + 1) playingState) = 0 \<and>
   frameIndex (tick playingState) = 0 \<and>
   frameIndex (showFrame (frameIndex playingState + (- 1)) playingState) = 2"
  using showFrame_circular [of playingState "- 1"]
  by (simp add: frameCount_def playingState_def loadedState_def)

subsection \<open>Changing the resolution\<close>

lemma showFrame_same_index:
  "frameCount s = 0 \<or> (0 \<le> frameIndex s \<and> frameIndex s < int (frameCount s)) \<Longrightarrow>
   i = frameIndex s \<Longrightarrow> frameIndex (showFrame i s) = frameIndex s"
  by (auto simp add: showFrame_frameIndex js_rem_nonneg)

lemma setResolution_fields:
  "TILE_SIZE (setResolution sz s) = sz"
  "FRAME_INTERVAL (setResolution sz s) = (if sz = 512 then 650 else 450)"
  "frameCount (setResolution sz s) = frameCount s"
  "currentMode (setResolution sz s) = currentMode s"
  by (simp_all add: setResolution_def Let_def keeps frameCount_def)

lemma setResolution_frameIndex:
  assumes "frameCount s = 0 \<or> (0 \<le> frameIndex s \<and> frameIndex s < int (frameCount s))"
  shows "frameIndex (setResolution sz s) = frameIndex s"
proof -
  have "frameIndex (showFrame (frameIndex t) t) = frameIndex s"
    if "frameCount t = frameCount s" "frameIndex t = frameIndex s" for t
    using that assms showFrame_same_index [of t "frameIndex t"] by simp
  then show ?thesis
    by (simp add: setResolution_def Let_def keeps frameCount_def)
qed

text \<open>
  Claim C7.  From any state whose frame index is in bounds (or whose active frame list is
  empty), \<^verbatim>\<open>setResolution(512)\<close> followed by \<^verbatim>\<open>setResolution(256)\<close> ends with a frame
  interval of 450 ms, a tile size of 256 and the frame index it started with; a single call
  sets the interval to 450 for size 256 and to 650 for size 512, and stores the size.
\<close>

theorem setResolution_round_trip:
  assumes "frameCount s = 0 \<or> (0 \<le> frameIndex s \<and> frameIndex s < int (frameCount s))"
  shows "FRAME_INTERVAL (setResolution 256 (setResolution 512 s)) = 450
       \<and> TILE_SIZE (setResolution 256 (setResolution 512 s)) = 256
       \<and> frameIndex (setResolution 256 (setResolution 512 s)) = frameIndex s
       \<and> FRAME_INTERVAL (setResolution 256 s) = 450
       \<and> FRAME_INTERVAL (setResolution 512 s) = 650
       \<and> TILE_SIZE (setResolution sz s) = sz"
proof -
  have mid: "frameIndex (setResolution 512 s) = frameIndex s"
    using assms by (rule setResolution_frameIndex)
  have "frameCount (setResolution 512 s) = 0 \<or>
        (0 \<le> frameIndex (setResolution 512 s) \<and>
         frameIndex (setResolution 512 s) < int (frameCount (setResolution 512 s)))"
    using assms mid by (simp add: setResolution_fields)
  then have "frameIndex (setResolution 256 (setResolution 512 s)) = frameIndex (setResolution 512 s)"
    by (rule setResolution_frameIndex)
  then show ?thesis using mid by (simp add: setResolution_fields)
qed

theorem setResolution_round_trip_witness:
  "TILE_SIZE playingState = 256 \<and>
   0 \<le> frameIndex playingState \<and> frameIndex playingState < int (frameCount playingState) \<and>
   FRAME_INTERVAL (setResolution 256 (setResolution 512 playingState)) = 450 \<and>
   TILE_SIZE (setResolution 256 (setResolution 512 playingState)) = 256 \<and>
   frameIndex (setResolution 256 (setResolution 512 playingState)) = 3"
  using setResolution_round_trip [of playingState 256]
  by (simp add: frameCount_def playingState_def loadedState_def)

subsection \<open>The playback timer\<close>

lemma oneTimer_update:
  "oneTimer (s\<lparr>currentLayerType := a\<rparr>) = oneTimer s"
  "oneTimer (s\<lparr>radarLayer := b\<rparr>) = oneTimer s"
  "oneTimer (s\<lparr>rainFrames := c\<rparr>) = oneTimer s"
  "oneTimer (s\<lparr>satelliteFrames := d\<rparr>) = oneTimer s"
  "oneTimer (s\<lparr>rainLayer := e\<rparr>) = oneTimer s"
  "oneTimer (s\<lparr>frameIndex := f\<rparr>) = oneTimer s"
  "oneTimer (s\<lparr>MAX_FRAMES := g\<rparr>) = oneTimer s"
  "oneTimer (s\<lparr>FRAME_INTERVAL := h\<rparr>) = oneTimer s"
  "oneTimer (s\<lparr>LAYER_OPACITY := i\<rparr>) = oneTimer s"
  "oneTimer (s\<lparr>TILE_SIZE := j\<rparr>) = oneTimer s"
  "oneTimer (s\<lparr>mapLayers := k\<rparr>) = oneTimer s"
  "oneTimer (s\<lparr>nextLayerId := l\<rparr>) = oneTimer s"
  "oneTimer (s\<lparr>pendingPrimary := p\<rparr>) = oneTimer s"
  "oneTimer (s\<lparr>pendingSecondary := q\<rparr>) = oneTimer s"
  by (simp_all add: oneTimer_def)

lemma oneTimer_neutral:
  "oneTimer (showFrame i s) = oneTimer s"
  "oneTimer (setMode m s) = oneTimer s"
  "oneTimer (removeIfOn lo s) = oneTimer s"
  "oneTimer (removeLayer l s) = oneTimer s"
  by (simp_all add: oneTimer_def keeps removeLayer_def)

lemma oneTimer_pause: "oneTimer s \<Longrightarrow> oneTimer (pause s)"
  by (auto simp add: oneTimer_def pause_def clearInterval_def Let_def filter_empty_conv
      split: option.splits)

lemma oneTimer_play: "oneTimer s \<Longrightarrow> oneTimer (play s)"
  by (auto simp add: oneTimer_def play_def)

lemma oneTimer_setResolution: "oneTimer s \<Longrightarrow> oneTimer (setResolution sz s)"
  by (simp add: setResolution_def Let_def oneTimer_play oneTimer_pause oneTimer_neutral
      oneTimer_update)

lemma oneTimer_setLayerType: "oneTimer s \<Longrightarrow> oneTimer (setLayerType t s)"
  by (simp add: setLayerType_def Let_def oneTimer_play oneTimer_pause oneTimer_neutral
      oneTimer_update)

lemma oneTimer_finishRefresh: "oneTimer (finishRefresh s) = oneTimer s"
  by (simp add: finishRefresh_def Let_def oneTimer_neutral split: option.split)

lemma oneTimer_storeSatelliteFrames: "oneTimer (storeSatelliteFrames fs s) = oneTimer s"
  by (simp add: storeSatelliteFrames_def oneTimer_finishRefresh oneTimer_update)

lemma oneTimer_afterPrimary: "oneTimer (initRadarAnimation_afterPrimary sn r s) = oneTimer s"
  by (simp add: initRadarAnimation_afterPrimary_def Let_def oneTimer_neutral oneTimer_update
      oneTimer_storeSatelliteFrames split: response.split option.split)

lemma oneTimer_afterSecondary: "oneTimer (initRadarAnimation_afterSecondary sn r s) = oneTimer s"
  by (simp add: initRadarAnimation_afterSecondary_def oneTimer_storeSatelliteFrames
      oneTimer_update)

lemma oneTimer_tick: "oneTimer (tick s) = oneTimer s"
  by (simp add: tick_def oneTimer_neutral)

lemma oneTimer_handle: "oneTimer s \<Longrightarrow> oneTimer (handle nav sn e s)"
  by (cases e)
     (simp_all add: oneTimer_setLayerType playBtnClick_def oneTimer_play oneTimer_pause
       frameSliderInput_def oneTimer_neutral maxFramesInput_def oneTimer_update
       maxFramesChange_def initRadarAnimation_def oneTimer_afterPrimary oneTimer_afterSecondary
       speedSliderInput_def Let_def
       opacitySliderInput_def setRadarOpacity_def oneTimer_setResolution oneTimer_tick)

lemma oneTimer_run: "oneTimer s \<Longrightarrow> oneTimer (run nav sn es s)"
  by (induction es arbitrary: s) (simp_all add: oneTimer_handle)

lemma oneTimer_initMap: "oneTimer (initMap nav)"
  by (simp add: oneTimer_def initMap_def)

lemma oneTimer_length: "oneTimer s \<Longrightarrow> length (intervals s) \<le> 1"
proof -
  assume "oneTimer s"
  then have "length (map fst (intervals s)) \<le> 1"
    by (simp add: oneTimer_def split: option.split)
  then show ?thesis by simp
qed

lemma play_idem: "play (play s) = play s"
  by (simp add: play_def frameCount_def)

lemma pause_idem: "pause (pause s) = pause s"
  by (simp add: pause_def clearInterval_def Let_def split: option.split)

lemma pause_intervals: "oneTimer s \<Longrightarrow> intervals (pause s) = []"
  using oneTimer_pause [of s] by (auto simp add: oneTimer_def pause_keeps)

lemma play_starts:
  "animTimer s = None \<Longrightarrow> 0 < frameCount s \<Longrightarrow>
     animTimer (play s) = Some (nextTimerId s) \<and>
     intervals (play s) = intervals s @ [(nextTimerId s, FRAME_INTERVAL s)]"
  by (simp add: play_def)

text \<open>The flag and the handle agree on the initial page and after every event.\<close>

lemma flagAgrees_update:
  "flagAgrees (s\<lparr>currentLayerType := a\<rparr>) = flagAgrees s"
  "flagAgrees (s\<lparr>radarLayer := b\<rparr>) = flagAgrees s"
  "flagAgrees (s\<lparr>rainFrames := c\<rparr>) = flagAgrees s"
  "flagAgrees (s\<lparr>satelliteFrames := d\<rparr>) = flagAgrees s"
  "flagAgrees (s\<lparr>rainLayer := e\<rparr>) = flagAgrees s"
  "flagAgrees (s\<lparr>frameIndex := f\<rparr>) = flagAgrees s"
  "flagAgrees (s\<lparr>MAX_FRAMES := g\<rparr>) = flagAgrees s"
  "flagAgrees (s\<lparr>FRAME_INTERVAL := h\<rparr>) = flagAgrees s"
  "flagAgrees (s\<lparr>LAYER_OPACITY := i\<rparr>) = flagAgrees s"
  "flagAgrees (s\<lparr>TILE_SIZE := j\<rparr>) = flagAgrees s"
  "flagAgrees (s\<lparr>mapLayers := k\<rparr>) = flagAgrees s"
  "flagAgrees (s\<lparr>nextLayerId := l\<rparr>) = flagAgrees s"
  "flagAgrees (s\<lparr>pendingPrimary := p\<rparr>) = flagAgrees s"
  "flagAgrees (s\<lparr>pendingSecondary := q\<rparr>) = flagAgrees s"
  by (simp_all add: flagAgrees_def)

lemma flagAgrees_neutral:
  "flagAgrees (showFrame i s) = flagAgrees s"
  "flagAgrees (setMode m s) = flagAgrees s"
  "flagAgrees (removeIfOn lo s) = flagAgrees s"
  "flagAgrees (removeLayer l s) = flagAgrees s"
  by (simp_all add: flagAgrees_def keeps removeLayer_def)

lemma flagAgrees_pause: "flagAgrees (pause s)"
  by (simp add: flagAgrees_def pause_keeps)

lemma flagAgrees_play: "flagAgrees s \<Longrightarrow> flagAgrees (play s)"
  by (auto simp add: flagAgrees_def play_def)

lemma flagAgrees_setResolution: "flagAgrees s \<Longrightarrow> flagAgrees (setResolution sz s)"
  by (simp add: setResolution_def Let_def flagAgrees_play flagAgrees_pause flagAgrees_neutral
      flagAgrees_update)

lemma flagAgrees_setLayerType: "flagAgrees s \<Longrightarrow> flagAgrees (setLayerType t s)"
  by (simp add: setLayerType_def Let_def flagAgrees_play flagAgrees_pause flagAgrees_neutral
      flagAgrees_update)

lemma flagAgrees_finishRefresh: "flagAgrees (finishRefresh s) = flagAgrees s"
  by (simp add: finishRefresh_def Let_def flagAgrees_neutral split: option.split)

lemma flagAgrees_afterPrimary: "flagAgrees (initRadarAnimation_afterPrimary sn r s) = flagAgrees s"
  by (simp add: initRadarAnimation_afterPrimary_def Let_def flagAgrees_neutral flagAgrees_update
      storeSatelliteFrames_def flagAgrees_finishRefresh split: response.split option.split)

lemma flagAgrees_afterSecondary:
  "flagAgrees (initRadarAnimation_afterSecondary sn r s) = flagAgrees s"
  by (simp add: initRadarAnimation_afterSecondary_def storeSatelliteFrames_def
      flagAgrees_finishRefresh flagAgrees_update)

lemma flagAgrees_handle: "flagAgrees s \<Longrightarrow> flagAgrees (handle nav sn e s)"
  by (cases e)
     (simp_all add: flagAgrees_setLayerType playBtnClick_def flagAgrees_play flagAgrees_pause
       frameSliderInput_def flagAgrees_neutral maxFramesInput_def flagAgrees_update
       maxFramesChange_def initRadarAnimation_def flagAgrees_afterPrimary
       flagAgrees_afterSecondary speedSliderInput_def Let_def opacitySliderInput_def
       setRadarOpacity_def flagAgrees_setResolution tick_def)

lemma flagAgrees_run: "flagAgrees s \<Longrightarrow> flagAgrees (run nav sn es s)"
  by (induction es arbitrary: s) (simp_all add: flagAgrees_handle)

lemma flagAgrees_initMap: "flagAgrees (initMap nav)"
  by (simp add: flagAgrees_def initMap_def)

text \<open>
  Claim C9.  \<^verbatim>\<open>play\<close> returns the state unchanged when a timer handle is stored or the active
  frame list is empty; \<^verbatim>\<open>pause\<close> clears the stored handle and, when the registrations are the
  stored handle, leaves no registration; both are idempotent.  The property that the
  registrations are exactly the stored handle is kept by every event of the page (direct calls
  of \<^verbatim>\<open>play\<close> and \<^verbatim>\<open>pause\<close> among them), so after any sequence of events at most one
  recurring timer is registered, from any such state and from the initial page.
\<close>

theorem at_most_one_timer:
  "(animTimer s \<noteq> None \<or> frameCount s = 0 \<longrightarrow> play s = s)
   \<and> animTimer (pause s) = None
   \<and> (oneTimer s \<longrightarrow> intervals (pause s) = [])
   \<and> play (play s) = play s
   \<and> pause (pause s) = pause s
   \<and> (oneTimer s \<longrightarrow> oneTimer (run nav sn es s) \<and> length (intervals (run nav sn es s)) \<le> 1)
   \<and> length (intervals (run nav sn es (initMap nav))) \<le> 1"
proof -
  have a: "animTimer s \<noteq> None \<or> frameCount s = 0 \<longrightarrow> play s = s"
    by (auto simp add: play_def)
  have b: "oneTimer s \<longrightarrow> intervals (pause s) = []"
    using oneTimer_pause [of s] by (auto simp add: oneTimer_def pause_keeps)
  have c: "oneTimer s \<longrightarrow> oneTimer (run nav sn es s) \<and> length (intervals (run nav sn es s)) \<le> 1"
    using oneTimer_run oneTimer_length by blast
  have d: "length (intervals (run nav sn es (initMap nav))) \<le> 1"
    using oneTimer_run [OF oneTimer_initMap] oneTimer_length by blast
  show ?thesis using a b c d by (simp add: pause_keeps play_idem pause_idem)
qed

theorem at_most_one_timer_witness:
  "oneTimer playingState \<and> animTimer playingState \<noteq> None \<and>
   play playingState = playingState \<and>
   intervals (pause playingState) = [] \<and>
   intervals (run exampleNav notNumeric [CallPlay, CallPause, CallPlay, CallPlay] playingState)
     = [(2, 450)]"
  using at_most_one_timer
    [of playingState exampleNav notNumeric "[CallPlay, CallPause, CallPlay, CallPlay]"]
  by (simp add: oneTimer_def playingState_def loadedState_def play_def pause_def
      clearInterval_def frameCount_def)

subsection \<open>Switching the layer type\<close>

lemma js_rem_last: "0 < n \<Longrightarrow> js_rem (2 * n - 1) n = n - 1"
proof -
  assume n: "0 < n"
  have a: "js_rem (2 * n - 1) n = (2 * n - 1) mod n" using n by (intro js_rem_nonneg) simp_all
  have "2 * n - 1 = (n - 1) + n" by simp
  then have b: "(2 * n - 1) mod n = ((n - 1) + n) mod n" by (rule arg_cong)
  have c: "((n - 1) + n) mod n = (n - 1) mod n" by (rule mod_add_self2)
  have d: "(n - 1) mod n = n - 1" using n by (intro mod_pos_pos_trivial) simp_all
  show ?thesis by (simp only: a b c d)
qed

lemma play_animTimer:
  "(animTimer (play s) = None) = (animTimer s = None \<and> frameCount s = 0)"
  by (auto simp add: play_def)

lemma setLayerType_basic:
  "currentLayerType (setLayerType t s) = normalizeLayerType t"
  "rainFrames (setLayerType t s) = rainFrames s"
  "satelliteFrames (setLayerType t s) = satelliteFrames s"
  "currentMode (setLayerType t s) =
     (if frameCount (setLayerType t s) = 0 \<and> (currentMode s = Animated \<or> currentMode s = Auto)
      then Static else currentMode s)"
  by (simp_all add: setLayerType_def Let_def keeps frameCount_def)

lemma setLayerType_frameIndex:
  "0 < frameCount (setLayerType t s) \<Longrightarrow>
     frameIndex (setLayerType t s) = int (frameCount (setLayerType t s)) - 1"
  by (simp add: setLayerType_def Let_def keeps frameCount_def showFrame_frameIndex js_rem_last
      split: if_splits)

lemma setLayerType_isPlaying:
  "isPlaying (setLayerType t s) = (isPlaying s \<and> 0 < frameCount (setLayerType t s))"
  by (simp add: setLayerType_def Let_def keeps frameCount_def play_isPlaying)

lemma setLayerType_animTimer:
  "isPlaying s = (animTimer s \<noteq> None) \<Longrightarrow>
   (animTimer (setLayerType t s) \<noteq> None) = (isPlaying s \<and> 0 < frameCount (setLayerType t s))"
  by (simp add: setLayerType_def Let_def keeps frameCount_def play_animTimer del: not_None_eq)

text \<open>The registrations after the switch: the one that \<^verbatim>\<open>play\<close> makes when playback resumes,
  and none otherwise.\<close>

lemma setLayerType_timer:
  assumes "oneTimer s" and "flagAgrees s"
  shows "if isPlaying s \<and> 0 < frameCount (setLayerType t s)
         then animTimer (setLayerType t s) = Some (nextTimerId s) \<and>
              intervals (setLayerType t s) = [(nextTimerId s, FRAME_INTERVAL s)]
         else animTimer (setLayerType t s) = None \<and> intervals (setLayerType t s) = []"
proof (cases "isPlaying s")
  case True
  have p: "intervals (pause s) = []" using assms(1) by (rule pause_intervals)
  show ?thesis
    using True p
    by (simp add: setLayerType_def Let_def keeps frameCount_def play_def)
next
  case False
  then have "animTimer s = None" using assms(2) by (simp add: flagAgrees_def)
  then have "intervals s = []" using assms(1) by (simp add: oneTimer_def)
  then show ?thesis
    using False \<open>animTimer s = None\<close>
    by (simp add: setLayerType_def Let_def keeps frameCount_def)
qed

text \<open>
  Claim C5.  \<^verbatim>\<open>setLayerType\<close> stores the normalised layer type and leaves both frame lists as
  they are.  When the frame list of the new layer type is not empty, the frame index after the
  call is its last position (frame count minus one).  Playback is running after the call
  exactly when it was running before the call and that frame list is not empty: this holds of
  the \<^verbatim>\<open>isPlaying\<close> flag in every state, and of the stored timer handle in every state where
  flag and handle agree.  It holds of the browser's timer as well: in a state where the
  registrations are the stored handle and flag and handle agree, the call ends with exactly one
  registration, at the current frame interval and under the handle it stores, when playback
  was running and the new frame list is not empty, and with no registration and no handle
  otherwise.  Every state that a sequence of events reaches from the initial page is such a
  state.
\<close>

theorem setLayerType_last_frame_and_playback:
  "currentLayerType (setLayerType t s) = normalizeLayerType t
   \<and> rainFrames (setLayerType t s) = rainFrames s
   \<and> satelliteFrames (setLayerType t s) = satelliteFrames s
   \<and> (0 < frameCount (setLayerType t s) \<longrightarrow>
        frameIndex (setLayerType t s) = int (frameCount (setLayerType t s)) - 1)
   \<and> (isPlaying (setLayerType t s) \<longleftrightarrow> isPlaying s \<and> 0 < frameCount (setLayerType t s))
   \<and> (isPlaying s = (animTimer s \<noteq> None) \<longrightarrow>
        (animTimer (setLayerType t s) \<noteq> None \<longleftrightarrow>
           isPlaying s \<and> 0 < frameCount (setLayerType t s)))
   \<and> (oneTimer s \<and> isPlaying s = (animTimer s \<noteq> None) \<longrightarrow>
        (if isPlaying s \<and> 0 < frameCount (setLayerType t s)
         then \<exists>h. animTimer (setLayerType t s) = Some h \<and>
                  intervals (setLayerType t s) = [(h, FRAME_INTERVAL (setLayerType t s))]
         else animTimer (setLayerType t s) = None \<and> intervals (setLayerType t s) = []))
   \<and> (oneTimer (run nav sn es (initMap nav)) \<and>
      isPlaying (run nav sn es (initMap nav)) = (animTimer (run nav sn es (initMap nav)) \<noteq> None))"
proof -
  have fi: "FRAME_INTERVAL (setLayerType t s) = FRAME_INTERVAL s"
    by (simp add: setLayerType_def Let_def keeps)
  have tm: "oneTimer s \<and> isPlaying s = (animTimer s \<noteq> None) \<longrightarrow>
        (if isPlaying s \<and> 0 < frameCount (setLayerType t s)
         then \<exists>h. animTimer (setLayerType t s) = Some h \<and>
                  intervals (setLayerType t s) = [(h, FRAME_INTERVAL (setLayerType t s))]
         else animTimer (setLayerType t s) = None \<and> intervals (setLayerType t s) = [])"
  proof
    assume h: "oneTimer s \<and> isPlaying s = (animTimer s \<noteq> None)"
    then have "flagAgrees s" by (simp add: flagAgrees_def)
    with h show "if isPlaying s \<and> 0 < frameCount (setLayerType t s)
         then \<exists>h. animTimer (setLayerType t s) = Some h \<and>
                  intervals (setLayerType t s) = [(h, FRAME_INTERVAL (setLayerType t s))]
         else animTimer (setLayerType t s) = None \<and> intervals (setLayerType t s) = []"
      using setLayerType_timer [of s t] fi by (simp split: if_splits)
  qed
  have "flagAgrees (run nav sn es (initMap nav))"
    using flagAgrees_initMap by (rule flagAgrees_run)
  then have re: "isPlaying (run nav sn es (initMap nav)) =
      (animTimer (run nav sn es (initMap nav)) \<noteq> None)"
    by (simp add: flagAgrees_def)
  have ot: "oneTimer (run nav sn es (initMap nav))"
    using oneTimer_initMap by (rule oneTimer_run)
  show ?thesis
    using setLayerType_basic(1-3) [of t s] setLayerType_frameIndex [of t s]
      setLayerType_isPlaying [of t s] setLayerType_animTimer [of s t] tm re ot
    by blast
qed

theorem setLayerType_last_frame_and_playback_witness:
  "oneTimer playingState \<and>
   isPlaying playingState = (animTimer playingState \<noteq> None) \<and> isPlaying playingState \<and>
   frameCount (setLayerType ''Precip'' (playingState\<lparr>frameIndex := 0\<rparr>)) = 4 \<and>
   frameIndex (setLayerType ''Precip'' (playingState\<lparr>frameIndex := 0\<rparr>)) = 3 \<and>
   isPlaying (setLayerType ''Precip'' (playingState\<lparr>frameIndex := 0\<rparr>)) \<and>
   animTimer (setLayerType ''Precip'' (playingState\<lparr>frameIndex := 0\<rparr>)) \<noteq> None \<and>
   length (intervals (setLayerType ''Precip'' (playingState\<lparr>frameIndex := 0\<rparr>))) = 1 \<and>
   frameCount (setLayerType ''clouds'' playingState) = 0 \<and>
   \<not> isPlaying (setLayerType ''clouds'' playingState) \<and>
   animTimer (setLayerType ''clouds'' playingState) = None \<and>
   intervals (setLayerType ''clouds'' playingState) = []"
proof -
  let ?s = "playingState\<lparr>frameIndex := 0\<rparr>"
  let ?a = "setLayerType ''Precip'' ?s"
  let ?b = "setLayerType ''clouds'' playingState"
  have norm: "normalizeLayerType ''Precip'' = Radar" "normalizeLayerType ''clouds'' = Clouds"
    by code_simp+
  have pre: "isPlaying playingState = (animTimer playingState \<noteq> None)" "isPlaying playingState"
    "isPlaying ?s = (animTimer ?s \<noteq> None)" "isPlaying ?s"
    "rainFrames ?s = [100, 200, 300, 400]" "satelliteFrames playingState = []"
    "oneTimer playingState" "oneTimer ?s"
    by (simp_all add: playingState_def loadedState_def oneTimer_def)
  note a = setLayerType_last_frame_and_playback [of "''Precip''" ?s]
  note b = setLayerType_last_frame_and_playback [of "''clouds''" playingState]
  have ca: "frameCount ?a = 4" using a norm pre by (simp add: frameCount_def)
  have cb: "frameCount ?b = 0" using b norm pre by (simp add: frameCount_def)
  have ta: "\<exists>h. animTimer ?a = Some h \<and> intervals ?a = [(h, FRAME_INTERVAL ?a)]"
    using a ca pre by simp
  have tb: "animTimer ?b = None \<and> intervals ?b = []"
    using b cb pre by simp
  have la: "length (intervals ?a) = 1" using ta by auto
  show ?thesis using a b ca cb pre la tb by simp
qed

subsection \<open>The frame cap\<close>

lemma RECOMMENDED_values: "RECOMMENDED_MAX_FRAMES nav \<in> {24, 36, 48}"
  by (simp add: RECOMMENDED_MAX_FRAMES_def)

text \<open>
  Claim C8, as the handler computes it.  The stored cap always lies in \<open>[6, 60]\<close> and the handler
  changes no other field.  A parsed input other than 0 is stored clamped: below 6 it becomes 6,
  above 60 it becomes 60, inside the range it is stored as it is.  An input that parses to 0,
  or does not parse, stores the recommended cap of the device (24, 36 or 48).
\<close>

theorem maxFramesInput_stored:
  "6 \<le> MAX_FRAMES (maxFramesInput nav p s) \<and> MAX_FRAMES (maxFramesInput nav p s) \<le> 60
   \<and> (\<forall>n. p = Some n \<and> n \<noteq> 0 \<longrightarrow> MAX_FRAMES (maxFramesInput nav p s) = max 6 (min 60 n))
   \<and> (\<forall>n. p = Some n \<and> 6 \<le> n \<and> n \<le> 60 \<longrightarrow> MAX_FRAMES (maxFramesInput nav p s) = n)
   \<and> (p = None \<or> p = Some 0 \<longrightarrow>
        MAX_FRAMES (maxFramesInput nav p s) = RECOMMENDED_MAX_FRAMES nav)
   \<and> RECOMMENDED_MAX_FRAMES nav \<in> {24, 36, 48}
   \<and> maxFramesInput nav p s = s\<lparr>MAX_FRAMES := MAX_FRAMES (maxFramesInput nav p s)\<rparr>"
  using RECOMMENDED_values [of nav]
  by (cases p) (auto simp add: maxFramesInput_def)

theorem maxFramesInput_stored_witness:
  "MAX_FRAMES (maxFramesInput exampleNav (Some 3) loadedState) = 6 \<and>
   MAX_FRAMES (maxFramesInput exampleNav (Some 999) loadedState) = 60 \<and>
   MAX_FRAMES (maxFramesInput exampleNav (Some 24) loadedState) = 24 \<and>
   MAX_FRAMES (maxFramesInput exampleNav None loadedState) = RECOMMENDED_MAX_FRAMES exampleNav"
  using maxFramesInput_stored [of exampleNav "Some 3" loadedState]
    maxFramesInput_stored [of exampleNav "Some 999" loadedState]
    maxFramesInput_stored [of exampleNav "Some 24" loadedState]
    maxFramesInput_stored [of exampleNav None loadedState]
  by simp

text \<open>The claim as stated fails for the input 0, which lies outside \<open>[6, 60]\<close>: it is not
  clamped to 6 but replaced by the recommended cap, 36 on the example device.\<close>

theorem maxFramesInput_zero_counterexample:
  "MAX_FRAMES (maxFramesInput exampleNav (Some 0) loadedState) = 36 \<and>
   MAX_FRAMES (maxFramesInput exampleNav (Some 0) loadedState) \<noteq> max 6 (min 60 0)"
  by (simp add: maxFramesInput_def RECOMMENDED_MAX_FRAMES_def exampleNav_def DEVICE_MEM_def)

text \<open>\<^verbatim>\<open>MAX_FRAMES\<close> is assigned in two places only, its initialisation and the input handler
  of the cap, so it lies in \<open>[6, 60]\<close> on the initial page and after every event.\<close>

lemma removeLayer_keeps:
  "rainFrames (removeLayer l s) = rainFrames s"
  "satelliteFrames (removeLayer l s) = satelliteFrames s"
  "currentMode (removeLayer l s) = currentMode s"
  "currentLayerType (removeLayer l s) = currentLayerType s"
  "frameIndex (removeLayer l s) = frameIndex s"
  "animTimer (removeLayer l s) = animTimer s"
  "isPlaying (removeLayer l s) = isPlaying s"
  "intervals (removeLayer l s) = intervals s"
  "MAX_FRAMES (removeLayer l s) = MAX_FRAMES s"
  "radarLayer (removeLayer l s) = radarLayer s"
  by (simp_all add: removeLayer_def)

lemma finishRefresh_keeps:
  "rainFrames (finishRefresh s) = rainFrames s"
  "satelliteFrames (finishRefresh s) = satelliteFrames s"
  "currentLayerType (finishRefresh s) = currentLayerType s"
  "animTimer (finishRefresh s) = animTimer s"
  "isPlaying (finishRefresh s) = isPlaying s"
  "intervals (finishRefresh s) = intervals s"
  "MAX_FRAMES (finishRefresh s) = MAX_FRAMES s"
  "radarLayer (finishRefresh s) = radarLayer s"
  "currentMode (finishRefresh s) = (if 0 < frameCount s then currentMode s else Static)"
  by (simp_all add: finishRefresh_def Let_def keeps removeLayer_keeps split: option.split)

lemma finishRefresh_frameCount: "frameCount (finishRefresh s) = frameCount s"
  by (simp add: frameCount_def finishRefresh_keeps)

lemma storeSatelliteFrames_keeps:
  "rainFrames (storeSatelliteFrames fs s) = rainFrames s"
  "satelliteFrames (storeSatelliteFrames fs s) = slice_from (- MAX_FRAMES s) fs"
  "currentLayerType (storeSatelliteFrames fs s) = currentLayerType s"
  "animTimer (storeSatelliteFrames fs s) = animTimer s"
  "isPlaying (storeSatelliteFrames fs s) = isPlaying s"
  "intervals (storeSatelliteFrames fs s) = intervals s"
  "MAX_FRAMES (storeSatelliteFrames fs s) = MAX_FRAMES s"
  "radarLayer (storeSatelliteFrames fs s) = radarLayer s"
  by (simp_all add: storeSatelliteFrames_def finishRefresh_keeps)

lemma afterPrimary_keeps:
  "MAX_FRAMES (initRadarAnimation_afterPrimary sn r s) = MAX_FRAMES s"
  "radarLayer (initRadarAnimation_afterPrimary sn r s) = radarLayer s"
  "animTimer (initRadarAnimation_afterPrimary sn r s) = animTimer s"
  "isPlaying (initRadarAnimation_afterPrimary sn r s) = isPlaying s"
  "intervals (initRadarAnimation_afterPrimary sn r s) = intervals s"
  "currentLayerType (initRadarAnimation_afterPrimary sn r s) = currentLayerType s"
  by (simp_all add: initRadarAnimation_afterPrimary_def Let_def setMode_keeps
      storeSatelliteFrames_keeps split: response.split option.split)

lemma afterSecondary_keeps:
  "MAX_FRAMES (initRadarAnimation_afterSecondary sn r s) = MAX_FRAMES s"
  "radarLayer (initRadarAnimation_afterSecondary sn r s) = radarLayer s"
  "animTimer (initRadarAnimation_afterSecondary sn r s) = animTimer s"
  "isPlaying (initRadarAnimation_afterSecondary sn r s) = isPlaying s"
  "intervals (initRadarAnimation_afterSecondary sn r s) = intervals s"
  "rainFrames (initRadarAnimation_afterSecondary sn r s) = rainFrames s"
  "currentLayerType (initRadarAnimation_afterSecondary sn r s) = currentLayerType s"
  by (simp_all add: initRadarAnimation_afterSecondary_def storeSatelliteFrames_keeps)

lemma MAX_FRAMES_handle:
  "MAX_FRAMES (handle nav sn e s) =
     (case e of
        MaxFramesInput p \<Rightarrow> max 6 (min 60 (orDefault p (RECOMMENDED_MAX_FRAMES nav)))
      | _ \<Rightarrow> MAX_FRAMES s)"
  by (cases e)
     (simp_all add: setLayerType_def setResolution_def Let_def keeps playBtnClick_def
       frameSliderInput_def maxFramesInput_def maxFramesChange_def initRadarAnimation_def
       speedSliderInput_def opacitySliderInput_def setRadarOpacity_def tick_def
       afterPrimary_keeps afterSecondary_keeps)

lemma cap_handle:
  assumes "6 \<le> MAX_FRAMES s \<and> MAX_FRAMES s \<le> 60"
  shows "6 \<le> MAX_FRAMES (handle nav sn e s) \<and> MAX_FRAMES (handle nav sn e s) \<le> 60"
  using assms by (simp add: MAX_FRAMES_handle split: event.split)

lemma cap_run:
  "6 \<le> MAX_FRAMES s \<and> MAX_FRAMES s \<le> 60 \<Longrightarrow>
     6 \<le> MAX_FRAMES (run nav sn es s) \<and> MAX_FRAMES (run nav sn es s) \<le> 60"
proof (induction es arbitrary: s)
  case Nil
  then show ?case by simp
next
  case (Cons e es)
  have "6 \<le> MAX_FRAMES (handle nav sn e s) \<and> MAX_FRAMES (handle nav sn e s) \<le> 60"
    using Cons.prems by (rule cap_handle)
  then have "6 \<le> MAX_FRAMES (run nav sn es (handle nav sn e s)) \<and>
             MAX_FRAMES (run nav sn es (handle nav sn e s)) \<le> 60"
    by (rule Cons.IH)
  then show ?case by simp
qed

lemma cap_reachable:
  "6 \<le> MAX_FRAMES (run nav sn es (initMap nav)) \<and> MAX_FRAMES (run nav sn es (initMap nav)) \<le> 60"
proof -
  have "RECOMMENDED_MAX_FRAMES nav \<in> {24, 36, 48}" by (rule RECOMMENDED_values)
  then have "6 \<le> MAX_FRAMES (initMap nav) \<and> MAX_FRAMES (initMap nav) \<le> 60"
    by (auto simp add: initMap_def)
  then show ?thesis by (rule cap_run)
qed

subsection \<open>The example states are reached from the initial page\<close>

lemma run_append: "run nav sn (es @ fs) s = run nav sn fs (run nav sn es s)"
  by (induction es arbitrary: s) simp_all

lemma radarScenario_frames:
  "radarFrames notNumeric 36 radarScenario = Some [100, 200, 300, 400]"
  by (simp add: radarFrames_def radarScenario_def stamp_def slice_from_def Let_def)

lemma radarScenario_noSat: "primarySatFrames notNumeric radarScenario = []"
  by (simp add: primarySatFrames_def radarScenario_def)

lemma firstLoad_pending:
  "run exampleNav notNumeric [RefreshBtn, PrimaryArrives (Json radarScenario)] (initMap exampleNav)
     = (initMap exampleNav)\<lparr>rainFrames := [100, 200, 300, 400], pendingSecondary := 1\<rparr>"
  using radarScenario_frames radarScenario_noSat
  by (simp add: initRadarAnimation_def initRadarAnimation_afterPrimary_def Let_def initMap_def
      RECOMMENDED_MAX_FRAMES_def exampleNav_def DEVICE_MEM_def)

lemma firstLoad_loadedState:
  "run exampleNav notNumeric firstLoad (initMap exampleNav) = loadedState"
proof -
  have a: "run exampleNav notNumeric firstLoad (initMap exampleNav) =
     handle exampleNav notNumeric (SecondaryArrives NotOk)
       (run exampleNav notNumeric [RefreshBtn, PrimaryArrives (Json radarScenario)] (initMap exampleNav))"
    by (simp add: firstLoad_def)
  show ?thesis
    unfolding a firstLoad_pending
    by (auto simp add: initRadarAnimation_afterSecondary_def storeSatelliteFrames_def
        finishRefresh_def Let_def initMap_def loadedState_def slice_from_def frameCount_def
        showFrame_def js_rem_def frameTokenAt_def setUrlOrCreate_def createRainLayer_def
        setMode_def removeIfOn_def addIfOff_def hasLayer_def removeLayer_def
        addTo_def tileLayer_def RECOMMENDED_MAX_FRAMES_def exampleNav_def DEVICE_MEM_def)
qed

lemma play_loadedState: "handle exampleNav notNumeric PlayBtn loadedState = playingState"
  by (simp add: playBtnClick_def play_def loadedState_def playingState_def frameCount_def)

lemma emptyLoad_pending:
  "run exampleNav notNumeric [RefreshBtn, PrimaryArrives (Json (JObj []))] (initMap exampleNav)
     = (initMap exampleNav)\<lparr>pendingSecondary := 1\<rparr>"
  by (simp add: initRadarAnimation_def initRadarAnimation_afterPrimary_def Let_def initMap_def
      radarFrames_def primarySatFrames_def)

lemma emptyLoad_state:
  "run exampleNav notNumeric emptyLoad (initMap exampleNav) =
     (initMap exampleNav)\<lparr>currentMode := Static\<rparr>"
proof -
  have a: "run exampleNav notNumeric emptyLoad (initMap exampleNav) =
     handle exampleNav notNumeric (SecondaryArrives NotOk)
       (run exampleNav notNumeric [RefreshBtn, PrimaryArrives (Json (JObj []))] (initMap exampleNav))"
    by (simp add: emptyLoad_def)
  show ?thesis
    unfolding a emptyLoad_pending
    by (auto simp add: initRadarAnimation_afterSecondary_def storeSatelliteFrames_def
        finishRefresh_def Let_def initMap_def slice_from_def frameCount_def
        setMode_def removeIfOn_def addIfOff_def hasLayer_def removeLayer_def addTo_def)
qed

lemma examplePaths_frames:
  "extractSatelliteFrames notNumeric examplePaths =
     [\<lparr>path = ''b'', time = Some 10\<rparr>, \<lparr>path = ''a'', time = Some 30\<rparr>]"
  by (simp add: extractSatelliteFrames_def examplePaths_def frameOf_def sortTime_def)

lemma fullScenario_frames:
  "radarFrames notNumeric 36 fullScenario = Some [100, 200, 300, 400]"
  by (simp add: radarFrames_def fullScenario_def stamp_def slice_from_def Let_def)

lemma fullScenario_sat:
  "primarySatFrames notNumeric fullScenario =
     [\<lparr>path = ''b'', time = Some 10\<rparr>, \<lparr>path = ''a'', time = Some 30\<rparr>]"
  using examplePaths_frames by (simp add: primarySatFrames_def fullScenario_def examplePaths_def)

lemma refresh_initMap:
  "run exampleNav notNumeric [RefreshBtn] (initMap exampleNav) =
     (initMap exampleNav)\<lparr>pendingPrimary := 1\<rparr>"
  by (simp add: initRadarAnimation_def initMap_def)

lemma MAX_FRAMES_example: "MAX_FRAMES (initMap exampleNav) = 36"
  by (simp add: initMap_def RECOMMENDED_MAX_FRAMES_def exampleNav_def DEVICE_MEM_def)

subsection \<open>Radar frames\<close>

lemma finiteOnly_filter: "map Num (finiteOnly ns) = filter isFinite ns"
  by (induction ns rule: finiteOnly.induct) simp_all

lemma mapTimes_records:
  "\<forall>f \<in> set fs. f \<noteq> JNull \<and> f \<noteq> JUndefined \<Longrightarrow>
     mapTimes sn fs = Some (map (\<lambda>f. Number sn (getProp f ''time'')) fs)"
proof (induction fs)
  case Nil
  then show ?case by simp
next
  case (Cons f fs)
  then have "timeNumber sn f = Some (Number sn (getProp f ''time''))"
    by (cases f) simp_all
  with Cons show ?case by simp
qed

lemma slice_from_last:
  "1 \<le> m \<Longrightarrow> slice_from (- m) xs = drop (length xs - nat m) xs"
proof -
  assume m: "1 \<le> m"
  have "nat (max (int (length xs) + - m) 0) = length xs - nat m" using m by linarith
  then show ?thesis using m by (simp add: slice_from_def Let_def)
qed

lemma afterPrimary_rainFrames:
  assumes "radarFrames sn (MAX_FRAMES s) data = Some frames"
  shows "rainFrames (initRadarAnimation_afterPrimary sn (Json data) s) = frames"
  using assms
  by (simp add: initRadarAnimation_afterPrimary_def Let_def storeSatelliteFrames_keeps)

text \<open>
  Claim C3.  Let the payload be an object whose \<^verbatim>\<open>radar\<close> field is an object with a \<^verbatim>\<open>past\<close>
  array and a \<^verbatim>\<open>nowcast\<close> array of timestamp records.  Write \<open>ts\<close> for the finite values among
  the numbers \<^verbatim>\<open>Number(f.time)\<close>, \<open>f\<close> running through past then nowcast.  For every cap
  \<open>m \<ge> 1\<close> the radar frame list is \<open>ts\<close> sorted ascending, cut down to its last \<open>m\<close> entries (the
  oldest dropped first), and this is what \<^verbatim>\<open>initRadarAnimation\<close> stores in \<^verbatim>\<open>rainFrames\<close> when the
  payload arrives, with the cap that is stored at that moment.  The cap of the page lies in
  \<open>[6, 60]\<close> after every sequence of events, so on the page this holds for every cap there is:
  when the payload answers a request that is in flight, \<^verbatim>\<open>rainFrames\<close> is the last
  \<^verbatim>\<open>MAX_FRAMES\<close> entries of \<open>ts\<close> sorted ascending.
\<close>

theorem radarFrames_normalised:
  assumes "map_of doc ''radar'' = Some (JObj radar)"
    and "map_of radar ''past'' = Some (JArr past)"
    and "map_of radar ''nowcast'' = Some (JArr nowc)"
    and "\<forall>f \<in> set (past @ nowc). \<exists>fields. f = JObj fields"
    and "ts = finiteOnly (map (\<lambda>f. Number sn (getProp f ''time'')) (past @ nowc))"
    and "page = run nav sn es (initMap nav)"
  shows "map Num ts = filter isFinite (map (\<lambda>f. Number sn (getProp f ''time'')) (past @ nowc))
       \<and> (1 \<le> m \<longrightarrow> radarFrames sn m (JObj doc) = Some (drop (length ts - nat m) (sort ts)))
       \<and> (1 \<le> MAX_FRAMES s \<longrightarrow>
            rainFrames (initRadarAnimation_afterPrimary sn (Json (JObj doc)) s)
              = drop (length ts - nat (MAX_FRAMES s)) (sort ts))
       \<and> 6 \<le> MAX_FRAMES page \<and> MAX_FRAMES page \<le> 60
       \<and> (0 < pendingPrimary page \<longrightarrow>
            rainFrames (handle nav sn (PrimaryArrives (Json (JObj doc))) page)
              = drop (length ts - nat (MAX_FRAMES page)) (sort ts))"
proof -
  have rec: "\<forall>f \<in> set (past @ nowc). f \<noteq> JNull \<and> f \<noteq> JUndefined"
    using assms(4) by auto
  have gen: "radarFrames sn k (JObj doc) = Some (slice_from (- k) (sort ts))" for k
    using assms(1-3,5) mapTimes_records [OF rec, of sn]
    by (simp add: radarFrames_def Let_def)
  have a: "1 \<le> k \<Longrightarrow> radarFrames sn k (JObj doc) = Some (drop (length ts - nat k) (sort ts))" for k
    using gen [of k] slice_from_last [of k "sort ts"] by simp
  have c: "1 \<le> MAX_FRAMES x \<Longrightarrow>
            rainFrames (initRadarAnimation_afterPrimary sn (Json (JObj doc)) x)
              = drop (length ts - nat (MAX_FRAMES x)) (sort ts)" for x
    using a [of "MAX_FRAMES x"] afterPrimary_rainFrames [of sn x "JObj doc"] by simp
  have cap: "6 \<le> MAX_FRAMES page \<and> MAX_FRAMES page \<le> 60"
    unfolding assms(6) by (rule cap_reachable)
  have d: "0 < pendingPrimary page \<longrightarrow>
            rainFrames (handle nav sn (PrimaryArrives (Json (JObj doc))) page)
              = drop (length ts - nat (MAX_FRAMES page)) (sort ts)"
    using c [of page] cap by simp
  show ?thesis using a [of m] c [of s] cap d assms(5) by (simp add: finiteOnly_filter)
qed

theorem radarFrames_normalised_witness:
  "radarFrames notNumeric 3 radarScenario = Some [200, 300, 400] \<and>
   MAX_FRAMES (run exampleNav notNumeric [MaxFramesInput (Some 6), RefreshBtn] (initMap exampleNav)) = 6 \<and>
   0 < pendingPrimary (run exampleNav notNumeric [MaxFramesInput (Some 6), RefreshBtn] (initMap exampleNav)) \<and>
   rainFrames (handle exampleNav notNumeric (PrimaryArrives (Json sevenStamps))
     (run exampleNav notNumeric [MaxFramesInput (Some 6), RefreshBtn] (initMap exampleNav)))
     = [200, 300, 400, 500, 600, 700]"
proof -
  let ?radar = "[(''past'', JArr [stamp 100, stamp 200, stamp 300]), (''nowcast'', JArr [stamp 400])]"
  let ?doc = "[(''radar'', JObj ?radar)]"
  let ?radar7 = "[(''past'', JArr [stamp 700, stamp 100, stamp 200, stamp 300, stamp 400, stamp 500]),
                  (''nowcast'', JArr [stamp 600])]"
  let ?doc7 = "[(''radar'', JObj ?radar7)]"
  let ?es = "[MaxFramesInput (Some 6), RefreshBtn]"
  let ?page = "run exampleNav notNumeric ?es (initMap exampleNav)"
  have h1: "map_of ?doc ''radar'' = Some (JObj ?radar)" by simp
  have h2: "map_of ?radar ''past'' = Some (JArr [stamp 100, stamp 200, stamp 300])" by simp
  have h3: "map_of ?radar ''nowcast'' = Some (JArr [stamp 400])" by simp
  have h4: "\<forall>f \<in> set ([stamp 100, stamp 200, stamp 300] @ [stamp 400]). \<exists>fields. f = JObj fields"
    by (simp add: stamp_def)
  have ts: "finiteOnly (map (\<lambda>f. Number notNumeric (getProp f ''time''))
               ([stamp 100, stamp 200, stamp 300] @ [stamp 400])) = [100, 200, 300, 400]"
    by (simp add: stamp_def)
  have g1: "map_of ?doc7 ''radar'' = Some (JObj ?radar7)" by simp
  have g2: "map_of ?radar7 ''past'' =
      Some (JArr [stamp 700, stamp 100, stamp 200, stamp 300, stamp 400, stamp 500])" by simp
  have g3: "map_of ?radar7 ''nowcast'' = Some (JArr [stamp 600])" by simp
  have g4: "\<forall>f \<in> set ([stamp 700, stamp 100, stamp 200, stamp 300, stamp 400, stamp 500] @ [stamp 600]).
      \<exists>fields. f = JObj fields"
    by (simp add: stamp_def)
  have ts7: "finiteOnly (map (\<lambda>f. Number notNumeric (getProp f ''time''))
               ([stamp 700, stamp 100, stamp 200, stamp 300, stamp 400, stamp 500] @ [stamp 600]))
             = [700, 100, 200, 300, 400, 500, 600]"
    by (simp add: stamp_def)
  have pg: "MAX_FRAMES ?page = 6" "pendingPrimary ?page = 1"
    by (simp_all add: maxFramesInput_def initRadarAnimation_def initMap_def)
  have a: "radarFrames notNumeric 3 radarScenario = Some [200, 300, 400]"
    using radarFrames_normalised [OF h1 h2 h3 h4 ts [symmetric] refl, where m = 3]
    by (simp add: radarScenario_def)
  have b: "rainFrames (handle exampleNav notNumeric (PrimaryArrives (Json sevenStamps)) ?page)
     = [200, 300, 400, 500, 600, 700]"
    using radarFrames_normalised
      [OF g1 g2 g3 g4 ts7 [symmetric] refl, where nav = exampleNav and es = "?es"] pg
    by (simp add: sevenStamps_def)
  show ?thesis using a b pg by simp
qed

subsection \<open>Satellite frames\<close>

lemma frameOf_nonobject:
  "frameOf sn JUndefined = []" "frameOf sn JNull = []" "frameOf sn (JBool b) = []"
  "frameOf sn (JNum n) = []" "frameOf sn (JStr str) = []" "frameOf sn (JArr xs) = []"
  by (simp_all add: frameOf_def)

lemma visit_nested:
  "visit sn v = concat (map (frameOf sn) (nestedValues v))"
  "visitEach sn xs = concat (map (frameOf sn) (nestedOfEach xs))"
  "visitValues sn kvs = concat (map (frameOf sn) (nestedOfFields kvs))"
  by (induction sn v and sn xs and sn kvs rule: visit_visitEach_visitValues.induct)
     (simp_all add: frameOf_nonobject)

lemma frameOf_cases:
  "frameOf sn val =
     (case getProp val ''path'' of
        JStr p \<Rightarrow> if p = [] then [] else [\<lparr>path = p, time = finiteTime (Number sn (getProp val ''time''))\<rparr>]
      | _ \<Rightarrow> [])"
  by (simp add: frameOf_def finiteTime_def split: jsval.split)

lemma frameOf_path: "f \<in> set (frameOf sn val) \<Longrightarrow> path f \<noteq> []"
  by (auto simp add: frameOf_def split: jsval.splits if_splits)

lemma visit_path: "f \<in> set (visit sn v) \<Longrightarrow> path f \<noteq> []"
  by (auto simp add: visit_nested dest: frameOf_path)

lemma dedupe_paths:
  "path ` set (dedupe seen fs) = {p \<in> path ` set fs. p \<noteq> [] \<and> p \<notin> seen}"
  by (induction fs arbitrary: seen) auto

lemma dedupe_subset: "set (dedupe seen fs) \<subseteq> set fs"
  by (induction fs arbitrary: seen) auto

lemma dedupe_distinct: "distinct (map path (dedupe seen fs))"
proof (induction fs arbitrary: seen)
  case Nil
  then show ?case by simp
next
  case (Cons f fs)
  have "path f \<notin> path ` set (dedupe (insert (path f) seen) fs)"
    by (simp add: dedupe_paths)
  with Cons show ?case by simp
qed

lemma dedupe_first:
  "f \<in> set (dedupe seen fs) \<Longrightarrow> find (\<lambda>g. path g = path f) fs = Some f"
proof (induction fs arbitrary: seen)
  case Nil
  then show ?case by simp
next
  case (Cons g gs)
  have pf: "path f \<in> path ` set (dedupe seen (g # gs))" using Cons.prems by blast
  then have ok: "path f \<noteq> []" "path f \<notin> seen" by (simp_all only: dedupe_paths) auto
  show ?case
  proof (cases "path g = [] \<or> path g \<in> seen")
    case True
    then have "f \<in> set (dedupe seen gs)" using Cons.prems by simp
    then have "find (\<lambda>g. path g = path f) gs = Some f" by (rule Cons.IH)
    moreover have "path g \<noteq> path f" using True ok by auto
    ultimately show ?thesis by simp
  next
    case False
    then have mem: "f = g \<or> f \<in> set (dedupe (insert (path g) seen) gs)"
      using Cons.prems by simp
    show ?thesis
    proof (cases "path g = path f")
      case True
      have "f \<notin> set (dedupe (insert (path g) seen) gs)"
      proof
        assume "f \<in> set (dedupe (insert (path g) seen) gs)"
        then have "path f \<in> path ` set (dedupe (insert (path g) seen) gs)" by blast
        then show False using True by (simp add: dedupe_paths)
      qed
      with mem have "f = g" by simp
      then show ?thesis by simp
    next
      case neq: False
      with mem have "f \<in> set (dedupe (insert (path g) seen) gs)" by auto
      then have "find (\<lambda>g. path g = path f) gs = Some f" by (rule Cons.IH)
      with neq show ?thesis by simp
    qed
  qed
qed

lemma extract_set: "set (extractSatelliteFrames sn v) = set (dedupe {} (visit sn v))"
  by (simp add: extractSatelliteFrames_def)

lemma extract_distinct: "distinct (map path (extractSatelliteFrames sn v))"
proof -
  have d: "distinct (map path (dedupe {} (visit sn v)))" by (rule dedupe_distinct)
  then have "distinct (dedupe {} (visit sn v))" and "inj_on path (set (dedupe {} (visit sn v)))"
    by (simp_all add: distinct_map)
  then show ?thesis by (simp add: extractSatelliteFrames_def distinct_map)
qed

lemma extract_paths: "path ` set (extractSatelliteFrames sn v) = path ` set (visit sn v)"
  using visit_path [of _ sn v] by (auto simp add: extract_set dedupe_paths)

lemma extract_first:
  "f \<in> set (extractSatelliteFrames sn v) \<Longrightarrow> find (\<lambda>g. path g = path f) (visit sn v) = Some f"
  by (simp add: extract_set dedupe_first)

lemma extract_sorted: "sorted (map sortTime (extractSatelliteFrames sn v))"
  by (simp add: extractSatelliteFrames_def)

lemma extract_stable:
  "filter (\<lambda>f. sortTime f = k) (extractSatelliteFrames sn v) =
   filter (\<lambda>f. sortTime f = k) (dedupe {} (visit sn v))"
  by (simp add: extractSatelliteFrames_def sort_key_stable)

lemma afterSecondary_satelliteFrames:
  "satelliteFrames (initRadarAnimation_afterSecondary sn (Json v) s) =
     slice_from (- MAX_FRAMES s) (extractSatelliteFrames sn v)"
  by (simp add: initRadarAnimation_afterSecondary_def storeSatelliteFrames_keeps)

lemma afterPrimary_satelliteFrames:
  assumes "radarFrames sn (MAX_FRAMES s) (JObj doc) \<noteq> None"
    and "map_of doc ''satellite'' = Some v" and "truthy v"
    and "extractSatelliteFrames sn v \<noteq> []"
  shows "satelliteFrames (initRadarAnimation_afterPrimary sn (Json (JObj doc)) s) =
     slice_from (- MAX_FRAMES s) (extractSatelliteFrames sn v)"
proof -
  have "primarySatFrames sn (JObj doc) = extractSatelliteFrames sn v"
    using assms(2,3) by (simp add: primarySatFrames_def)
  then show ?thesis
    using assms(1,4)
    by (auto simp add: initRadarAnimation_afterPrimary_def Let_def storeSatelliteFrames_keeps)
qed

text \<open>
  Claim C4.  The traversal pushes, for every value nested in the payload (the payload first,
  the elements of an array by index, the values of an object in the order of
  \<^verbatim>\<open>Object.values\<close>), the frame of that value: one frame for an object whose \<^verbatim>\<open>path\<close> is a
  non-empty string (its \<^verbatim>\<open>time\<close> is \<^verbatim>\<open>Number(val.time)\<close> when finite and missing otherwise),
  none for any other value.  The result has pairwise distinct paths, contains every path that
  was pushed, keeps for each path the first frame pushed with it, is sorted ascending by time
  with a missing time counted as 0, and keeps frames of equal time in their earlier order.
  For a cap \<open>m \<ge> 1\<close> the caller's slice keeps the last \<open>m\<close> frames, and this is what
  \<^verbatim>\<open>initRadarAnimation\<close> stores in \<^verbatim>\<open>satelliteFrames\<close>, with the cap that is stored at that
  moment, both when the frames come with the answer to the second request and when they come
  with the first payload.  The cap of the page lies in \<open>[6, 60]\<close> after every sequence of
  events, so on the page this holds for every cap there is.
\<close>

theorem extractSatelliteFrames_normalised:
  assumes "page = run nav sn es (initMap nav)"
  shows "visit sn v = concat (map (frameOf sn) (nestedValues v))
   \<and> (\<forall>val. frameOf sn val =
        (case getProp val ''path'' of
           JStr p \<Rightarrow> if p = [] then []
                     else [\<lparr>path = p, time = finiteTime (Number sn (getProp val ''time''))\<rparr>]
         | _ \<Rightarrow> []))
   \<and> distinct (map path (extractSatelliteFrames sn v))
   \<and> path ` set (extractSatelliteFrames sn v) = path ` set (visit sn v)
   \<and> (\<forall>f \<in> set (extractSatelliteFrames sn v).
        find (\<lambda>g. path g = path f) (visit sn v) = Some f)
   \<and> sorted (map sortTime (extractSatelliteFrames sn v))
   \<and> (\<forall>f. sortTime f = (case time f of None \<Rightarrow> 0 | Some t \<Rightarrow> t))
   \<and> (\<forall>k. filter (\<lambda>f. sortTime f = k) (extractSatelliteFrames sn v) =
           filter (\<lambda>f. sortTime f = k) (dedupe {} (visit sn v)))
   \<and> (1 \<le> m \<longrightarrow> slice_from (- m) (extractSatelliteFrames sn v) =
        drop (length (extractSatelliteFrames sn v) - nat m) (extractSatelliteFrames sn v))
   \<and> (1 \<le> MAX_FRAMES s \<longrightarrow>
        satelliteFrames (initRadarAnimation_afterSecondary sn (Json v) s) =
          drop (length (extractSatelliteFrames sn v) - nat (MAX_FRAMES s))
               (extractSatelliteFrames sn v))
   \<and> (1 \<le> MAX_FRAMES s \<and> radarFrames sn (MAX_FRAMES s) (JObj doc) \<noteq> None \<and>
      map_of doc ''satellite'' = Some v \<and> truthy v \<and> extractSatelliteFrames sn v \<noteq> [] \<longrightarrow>
        satelliteFrames (initRadarAnimation_afterPrimary sn (Json (JObj doc)) s) =
          drop (length (extractSatelliteFrames sn v) - nat (MAX_FRAMES s))
               (extractSatelliteFrames sn v))
   \<and> 6 \<le> MAX_FRAMES page \<and> MAX_FRAMES page \<le> 60
   \<and> (0 < pendingSecondary page \<longrightarrow>
        satelliteFrames (handle nav sn (SecondaryArrives (Json v)) page) =
          drop (length (extractSatelliteFrames sn v) - nat (MAX_FRAMES page))
               (extractSatelliteFrames sn v))"
proof -
  have sec: "1 \<le> MAX_FRAMES x \<Longrightarrow>
        satelliteFrames (initRadarAnimation_afterSecondary sn (Json v) x) =
          drop (length (extractSatelliteFrames sn v) - nat (MAX_FRAMES x))
               (extractSatelliteFrames sn v)" for x
    using afterSecondary_satelliteFrames [of sn v x]
      slice_from_last [of "MAX_FRAMES x" "extractSatelliteFrames sn v"]
    by simp
  have prim: "1 \<le> MAX_FRAMES s \<and> radarFrames sn (MAX_FRAMES s) (JObj doc) \<noteq> None \<and>
      map_of doc ''satellite'' = Some v \<and> truthy v \<and> extractSatelliteFrames sn v \<noteq> [] \<longrightarrow>
        satelliteFrames (initRadarAnimation_afterPrimary sn (Json (JObj doc)) s) =
          drop (length (extractSatelliteFrames sn v) - nat (MAX_FRAMES s))
               (extractSatelliteFrames sn v)"
    using afterPrimary_satelliteFrames [of sn s doc v]
      slice_from_last [of "MAX_FRAMES s" "extractSatelliteFrames sn v"]
    by simp
  have cap: "6 \<le> MAX_FRAMES page \<and> MAX_FRAMES page \<le> 60"
    unfolding assms by (rule cap_reachable)
  have pg: "0 < pendingSecondary page \<longrightarrow>
        satelliteFrames (handle nav sn (SecondaryArrives (Json v)) page) =
          drop (length (extractSatelliteFrames sn v) - nat (MAX_FRAMES page))
               (extractSatelliteFrames sn v)"
    using sec [of page] cap by simp
  have key: "\<forall>f. sortTime f = (case time f of None \<Rightarrow> 0 | Some t \<Rightarrow> t)"
    by (simp add: sortTime_def split: option.split)
  show ?thesis
    using visit_nested(1) [of sn v] frameOf_cases [of sn] extract_distinct [of sn v]
      extract_paths [of sn v] extract_first [of _ sn v] extract_sorted [of sn v]
      extract_stable [of _ sn v] slice_from_last [of m "extractSatelliteFrames sn v"]
      sec [of s] prim cap pg key
    by blast
qed

theorem extractSatelliteFrames_normalised_witness:
  "extractSatelliteFrames notNumeric examplePaths =
     [\<lparr>path = ''b'', time = Some 10\<rparr>, \<lparr>path = ''a'', time = Some 30\<rparr>]
   \<and> find (\<lambda>g. path g = ''a'') (visit notNumeric examplePaths) = Some \<lparr>path = ''a'', time = Some 30\<rparr>
   \<and> MAX_FRAMES (run exampleNav notNumeric
        [MaxFramesInput (Some 6), RefreshBtn, PrimaryArrives (Json radarScenario)]
        (initMap exampleNav)) = 6
   \<and> 0 < pendingSecondary (run exampleNav notNumeric
        [MaxFramesInput (Some 6), RefreshBtn, PrimaryArrives (Json radarScenario)]
        (initMap exampleNav))
   \<and> satelliteFrames (handle exampleNav notNumeric (SecondaryArrives (Json sevenPaths))
        (run exampleNav notNumeric
           [MaxFramesInput (Some 6), RefreshBtn, PrimaryArrives (Json radarScenario)]
           (initMap exampleNav))) =
       [\<lparr>path = ''c'', time = Some 20\<rparr>, \<lparr>path = ''d'', time = Some 30\<rparr>,
        \<lparr>path = ''e'', time = Some 40\<rparr>, \<lparr>path = ''f'', time = Some 50\<rparr>,
        \<lparr>path = ''g'', time = Some 60\<rparr>, \<lparr>path = ''a'', time = Some 70\<rparr>]
   \<and> satelliteFrames (initRadarAnimation_afterPrimary notNumeric (Json fullScenario)
        (run exampleNav notNumeric [RefreshBtn] (initMap exampleNav))) =
       [\<lparr>path = ''b'', time = Some 10\<rparr>, \<lparr>path = ''a'', time = Some 30\<rparr>]"
proof -
  let ?es = "[MaxFramesInput (Some 6), RefreshBtn, PrimaryArrives (Json radarScenario)]"
  let ?page = "run exampleNav notNumeric ?es (initMap exampleNav)"
  let ?s1 = "run exampleNav notNumeric [RefreshBtn] (initMap exampleNav)"
  let ?doc = "[(''radar'', JObj [(''past'', JArr [stamp 100, stamp 200, stamp 300]),
                                 (''nowcast'', JArr [stamp 400])]),
               (''satellite'', examplePaths)]"
  have ev: "extractSatelliteFrames notNumeric examplePaths =
     [\<lparr>path = ''b'', time = Some 10\<rparr>, \<lparr>path = ''a'', time = Some 30\<rparr>]"
    by (rule examplePaths_frames)
  have m1: "MAX_FRAMES ?s1 = 36"
    unfolding refresh_initMap using MAX_FRAMES_example by simp
  have full: "fullScenario = JObj ?doc" by (simp add: fullScenario_def)
  have q: "radarFrames notNumeric (MAX_FRAMES ?s1) (JObj ?doc) \<noteq> None"
    "map_of ?doc ''satellite'' = Some examplePaths" "truthy examplePaths"
    unfolding m1 using fullScenario_frames by (simp_all add: fullScenario_def examplePaths_def)
  have ev7: "extractSatelliteFrames notNumeric sevenPaths =
     [\<lparr>path = ''b'', time = Some 10\<rparr>, \<lparr>path = ''c'', time = Some 20\<rparr>,
      \<lparr>path = ''d'', time = Some 30\<rparr>, \<lparr>path = ''e'', time = Some 40\<rparr>,
      \<lparr>path = ''f'', time = Some 50\<rparr>, \<lparr>path = ''g'', time = Some 60\<rparr>,
      \<lparr>path = ''a'', time = Some 70\<rparr>]"
    by (simp add: extractSatelliteFrames_def sevenPaths_def frameObject_def frameOf_def
        sortTime_def)
  have rf: "radarFrames notNumeric 6 radarScenario = Some [100, 200, 300, 400]"
    by (simp add: radarFrames_def radarScenario_def stamp_def slice_from_def Let_def)
  have ps: "primarySatFrames notNumeric radarScenario = []"
    by (simp add: primarySatFrames_def radarScenario_def)
  have pg: "MAX_FRAMES ?page = 6" "pendingSecondary ?page = 1"
    using rf ps
    by (simp_all add: maxFramesInput_def initRadarAnimation_def initMap_def
        initRadarAnimation_afterPrimary_def Let_def)
  note th = extractSatelliteFrames_normalised
    [OF refl, where nav = exampleNav and sn = notNumeric and es = "?es" and v = examplePaths]
  note th7 = extractSatelliteFrames_normalised
    [OF refl, where nav = exampleNav and sn = notNumeric and es = "?es" and v = sevenPaths]
  have first: "\<forall>f \<in> set (extractSatelliteFrames notNumeric examplePaths).
      find (\<lambda>g. path g = path f) (visit notNumeric examplePaths) = Some f"
    using th by blast
  have a: "find (\<lambda>g. path g = ''a'') (visit notNumeric examplePaths) = Some \<lparr>path = ''a'', time = Some 30\<rparr>"
    using first ev by simp
  have "0 < pendingSecondary ?page \<longrightarrow>
        satelliteFrames (handle exampleNav notNumeric (SecondaryArrives (Json sevenPaths)) ?page) =
          drop (length (extractSatelliteFrames notNumeric sevenPaths) - nat (MAX_FRAMES ?page))
               (extractSatelliteFrames notNumeric sevenPaths)"
    using th7 by blast
  then have c: "satelliteFrames (handle exampleNav notNumeric (SecondaryArrives (Json sevenPaths)) ?page) =
       [\<lparr>path = ''c'', time = Some 20\<rparr>, \<lparr>path = ''d'', time = Some 30\<rparr>,
        \<lparr>path = ''e'', time = Some 40\<rparr>, \<lparr>path = ''f'', time = Some 50\<rparr>,
        \<lparr>path = ''g'', time = Some 60\<rparr>, \<lparr>path = ''a'', time = Some 70\<rparr>]"
    unfolding pg ev7 by simp
  have "1 \<le> MAX_FRAMES ?s1 \<and> radarFrames notNumeric (MAX_FRAMES ?s1) (JObj ?doc) \<noteq> None \<and>
      map_of ?doc ''satellite'' = Some examplePaths \<and> truthy examplePaths \<and>
      extractSatelliteFrames notNumeric examplePaths \<noteq> [] \<longrightarrow>
        satelliteFrames (initRadarAnimation_afterPrimary notNumeric (Json (JObj ?doc)) ?s1) =
          drop (length (extractSatelliteFrames notNumeric examplePaths) - nat (MAX_FRAMES ?s1))
               (extractSatelliteFrames notNumeric examplePaths)"
    using th [where s = "?s1" and doc = "?doc"] by blast
  then have d: "satelliteFrames (initRadarAnimation_afterPrimary notNumeric (Json fullScenario) ?s1) =
       [\<lparr>path = ''b'', time = Some 10\<rparr>, \<lparr>path = ''a'', time = Some 30\<rparr>]"
    unfolding full using q ev m1 by simp
  show ?thesis using ev a pg c d by simp
qed

subsection \<open>Overlays on the map\<close>

lemma staticOn_iff: "staticOn s = (\<exists>l. radarLayer s = Some l \<and> lid l \<in> mapLayers s)"
  by (simp add: staticOn_def hasLayer_def split: option.split)

lemma animatedOn_iff: "animatedOn s = (\<exists>l. rainLayer s = Some l \<and> lid l \<in> mapLayers s)"
  by (simp add: animatedOn_def hasLayer_def split: option.split)

lemmas overlay_defs = effective_def staticOn_iff animatedOn_iff map_ops

lemma frameTokenAt_in_range:
  "0 \<le> i \<Longrightarrow> i < int (frameCount s) \<Longrightarrow> frameTokenAt s i \<noteq> None"
  by (simp add: frameTokenAt_def)

lemma js_rem_lt: "0 < n \<Longrightarrow> js_rem a n < n"
proof -
  assume n: "0 < n"
  have m: "0 \<le> \<bar>a\<bar> mod n" "\<bar>a\<bar> mod n < n" using n by simp_all
  show ?thesis
  proof (cases "0 < a")
    case True
    then show ?thesis using m n by (simp add: js_rem_def)
  next
    case False
    then have "js_rem a n \<le> 0" using m n by (simp add: js_rem_def sgn_if)
    then show ?thesis using n by linarith
  qed
qed

lemma showFrame_overlay:
  assumes "0 < frameCount s" and "0 \<le> js_rem (i + int (frameCount s)) (int (frameCount s))"
  shows "\<exists>l. rainLayer (showFrame i s) = Some l \<and>
          ((\<exists>l0. rainLayer s = Some l0 \<and> lid l0 \<in> mapLayers s \<and> lid l = lid l0 \<and>
                 mapLayers (showFrame i s) = mapLayers s \<and>
                 nextLayerId (showFrame i s) = nextLayerId s)
           \<or> (\<not> (\<exists>l0. rainLayer s = Some l0 \<and> lid l0 \<in> mapLayers s) \<and>
                lid l = nextLayerId s \<and> nextLayerId (showFrame i s) = Suc (nextLayerId s) \<and>
                mapLayers (showFrame i s) =
                  (if currentMode s = Animated \<or> currentMode s = Auto
                   then insert (nextLayerId s) (mapLayers s) else mapLayers s)))"
proof -
  let ?n = "int (frameCount s)"
  let ?s1 = "s\<lparr>frameIndex := js_rem (i + ?n) ?n\<rparr>"
  have fc: "frameCount ?s1 = frameCount s" by (simp add: frameCount_def)
  have "js_rem (i + ?n) ?n < ?n"
    using assms(1) js_rem_lt [of ?n "i + ?n"] by simp
  then have "frameTokenAt ?s1 (js_rem (i + ?n) ?n) \<noteq> None"
    using frameTokenAt_in_range [of "js_rem (i + ?n) ?n" ?s1] fc assms(2) by simp
  then obtain tok where tok: "frameTokenAt ?s1 (js_rem (i + ?n) ?n) = Some tok" by blast
  have sf: "showFrame i s =
      setUrlOrCreate (rvFrameUrl tok (TILE_SIZE s) (currentLayerType s)) ?s1"
    using assms(1) tok by (simp add: showFrame_def Let_def)
  show ?thesis
    unfolding sf
    by (auto simp add: setUrlOrCreate_def createRainLayer_def Let_def map_ops split: option.split)
qed

lemma showFrame_negative:
  assumes "0 < frameCount s" and "js_rem (i + int (frameCount s)) (int (frameCount s)) < 0"
  shows "showFrame i s = s\<lparr>frameIndex := js_rem (i + int (frameCount s)) (int (frameCount s))\<rparr>"
  using assms by (simp add: showFrame_def Let_def frameTokenAt_def)

lemma showFrame_layers:
  "rainLayer (showFrame i s) = rainLayer s \<and> mapLayers (showFrame i s) = mapLayers s \<and>
   nextLayerId (showFrame i s) = nextLayerId s
   \<or> (\<exists>l. rainLayer (showFrame i s) = Some l \<and>
          ((\<exists>l0. rainLayer s = Some l0 \<and> lid l0 \<in> mapLayers s \<and> lid l = lid l0 \<and>
                 mapLayers (showFrame i s) = mapLayers s \<and>
                 nextLayerId (showFrame i s) = nextLayerId s)
           \<or> (\<not> (\<exists>l0. rainLayer s = Some l0 \<and> lid l0 \<in> mapLayers s) \<and>
                lid l = nextLayerId s \<and> nextLayerId (showFrame i s) = Suc (nextLayerId s) \<and>
                mapLayers (showFrame i s) =
                  (if currentMode s = Animated \<or> currentMode s = Auto
                   then insert (nextLayerId s) (mapLayers s) else mapLayers s))))"
proof (cases "frameCount s = 0")
  case True
  then show ?thesis by (simp add: showFrame_def)
next
  case False
  then have pos: "0 < frameCount s" by simp
  show ?thesis
  proof (cases "js_rem (i + int (frameCount s)) (int (frameCount s)) < 0")
    case True
    then show ?thesis using showFrame_negative [OF pos True] by simp
  next
    case False
    then have "0 \<le> js_rem (i + int (frameCount s)) (int (frameCount s))" by simp
    from showFrame_overlay [OF pos this] show ?thesis by blast
  qed
qed

lemma layers_wf_showFrame: "layers_wf s \<Longrightarrow> layers_wf (showFrame i s)"
  using showFrame_layers [of i s] showFrame_keeps(13) [of i s]
  unfolding layers_wf_def
  by (elim disjE conjE exE) (auto split: if_splits)

lemma layers_wf_setMode: "layers_wf s \<Longrightarrow> layers_wf (setMode m s)"
  unfolding layers_wf_def
  by (auto simp add: setMode_def Let_def map_ops split: option.splits if_splits)

lemma layers_wf_timer:
  "layers_wf (pause s) = layers_wf s"
  "layers_wf (play s) = layers_wf s"
  by (simp_all add: layers_wf_def keeps)

lemma effective_timer:
  "effective (pause s) = effective s"
  "effective (play s) = effective s"
  by (simp_all add: overlay_defs keeps)

lemma setMode_Static_effective:
  assumes "layers_wf s" and "radarLayer s \<noteq> None"
  shows "effective (setMode Static s) = RenderedStatic"
  using assms unfolding layers_wf_def
  by (auto simp add: setMode_def Let_def overlay_defs split: option.splits)

lemma setMode_Auto_effective:
  assumes "layers_wf s" and "rainLayer s \<noteq> None"
  shows "effective (setMode Auto s) = RenderedAnimated"
  using assms unfolding layers_wf_def
  by (auto simp add: setMode_def Let_def overlay_defs split: option.splits)

lemma layers_wf_fields:
  assumes "radarLayer s' = radarLayer s" and "rainLayer s' = rainLayer s"
    and "mapLayers s' = mapLayers s" and "nextLayerId s' = nextLayerId s"
  shows "layers_wf s' = layers_wf s"
  using assms by (simp add: layers_wf_def)

lemma effective_fields:
  assumes "radarLayer s' = radarLayer s" and "rainLayer s' = rainLayer s"
    and "mapLayers s' = mapLayers s"
  shows "effective s' = effective s"
  using assms by (simp add: overlay_defs)

text \<open>The state of \<^verbatim>\<open>setLayerType\<close> once both overlays are detached and the new static overlay
  object is stored.\<close>

lemma setLayerType_unfold:
  assumes s1_def: "s1 = (if isPlaying s then pause s else s)"
    and s2_def: "s2 = s1\<lparr>currentLayerType := normalizeLayerType t\<rparr>"
    and s4_def: "s4 = removeIfOn (rainLayer (removeIfOn (radarLayer s2) s2)) (removeIfOn (radarLayer s2) s2)"
    and s5_def: "s5 = s4\<lparr>radarLayer := Some (tileLayer (getStaticLayerUrl (normalizeLayerType t)) False s4),
                     nextLayerId := Suc (nextLayerId s4)\<rparr>"
    and s6_def: "s6 = s5\<lparr>rainLayer := None, frameIndex := int (frameCount s5) - 1\<rparr>"
  shows "setLayerType t s =
     (if 0 < frameCount s5 then
        (let s8 = setMode (currentMode s) (showFrame (frameIndex s6) s6)
         in if isPlaying s then play s8 else s8)
      else if currentMode s = Animated \<or> currentMode s = Auto then setMode Static s5
      else (let s8 = setMode (currentMode s) s5 in if isPlaying s then play s8 else s8))"
    and "layers_wf s \<Longrightarrow> layers_wf s5 \<and> mapLayers s5 = {} \<and> radarLayer s5 \<noteq> None"
    and "layers_wf s \<Longrightarrow> layers_wf s6 \<and> mapLayers s6 = {} \<and> radarLayer s6 \<noteq> None"
    and "frameCount s5 = frameCount (setLayerType t s)"
    and "frameCount s6 = frameCount s5" and "currentMode s6 = currentMode s"
    and "frameIndex s6 = int (frameCount s5) - 1"
proof -
  show "setLayerType t s =
     (if 0 < frameCount s5 then
        (let s8 = setMode (currentMode s) (showFrame (frameIndex s6) s6)
         in if isPlaying s then play s8 else s8)
      else if currentMode s = Animated \<or> currentMode s = Auto then setMode Static s5
      else (let s8 = setMode (currentMode s) s5 in if isPlaying s then play s8 else s8))"
    unfolding s1_def s2_def s4_def s5_def s6_def
    by (simp add: setLayerType_def Let_def keeps frameCount_def)
  have lay1: "radarLayer s2 = radarLayer s" "rainLayer s2 = rainLayer s"
    "mapLayers s2 = mapLayers s" "nextLayerId s2 = nextLayerId s"
    unfolding s1_def s2_def by (simp_all add: keeps)
  have lay4: "radarLayer s4 = radarLayer s" "rainLayer s4 = rainLayer s"
    "nextLayerId s4 = nextLayerId s"
    unfolding s4_def using lay1 by (simp_all add: keeps)
  have map4: "mapLayers s4 \<subseteq> mapLayers s"
    "\<forall>l. radarLayer s = Some l \<longrightarrow> lid l \<notin> mapLayers s4"
    "\<forall>l. rainLayer s = Some l \<longrightarrow> lid l \<notin> mapLayers s4"
    unfolding s4_def using lay1 by (auto simp add: map_ops split: option.splits)
  have empty4: "mapLayers s4 = {}" if "layers_wf s"
  proof (rule equals0I)
    fix i
    assume i: "i \<in> mapLayers s4"
    then have "i \<in> mapLayers s" using map4(1) by blast
    then have "(\<exists>l. radarLayer s = Some l \<and> lid l = i) \<or> (\<exists>l. rainLayer s = Some l \<and> lid l = i)"
      using that unfolding layers_wf_def by blast
    then show False using i map4(2,3) by blast
  qed
  show wf5: "layers_wf s5 \<and> mapLayers s5 = {} \<and> radarLayer s5 \<noteq> None" if "layers_wf s"
    using that empty4 [OF that] lay4 unfolding s5_def layers_wf_def
    by (auto simp add: tileLayer_def)
  show "layers_wf s6 \<and> mapLayers s6 = {} \<and> radarLayer s6 \<noteq> None" if "layers_wf s"
    using wf5 [OF that] unfolding s6_def layers_wf_def by auto
  show "frameCount s5 = frameCount (setLayerType t s)"
    unfolding s1_def s2_def s4_def s5_def
    by (simp add: setLayerType_def Let_def keeps frameCount_def)
  show "frameCount s6 = frameCount s5" unfolding s6_def by (simp add: frameCount_def)
  show "currentMode s6 = currentMode s"
    unfolding s1_def s2_def s4_def s5_def s6_def by (simp add: keeps)
  show "frameIndex s6 = int (frameCount s5) - 1" unfolding s6_def by simp
qed


lemma layers_wf_setLayerType: "layers_wf s \<Longrightarrow> layers_wf (setLayerType t s)"
  using setLayerType_unfold(1-3) [OF refl refl refl refl refl, where s=s and t=t]
  by (auto simp add: Let_def layers_wf_timer layers_wf_setMode layers_wf_showFrame)

lemma setLayerType_empty_static:
  assumes "layers_wf s" and "frameCount (setLayerType t s) = 0"
    and "currentMode s = Auto \<or> currentMode s = Animated"
  shows "effective (setLayerType t s) = RenderedStatic"
  using setLayerType_unfold(1,2,4) [OF refl refl refl refl refl, where s=s and t=t] assms
  by (auto simp add: setMode_Static_effective)

lemma setLayerType_auto_animated:
  assumes "layers_wf s" and "0 < frameCount (setLayerType t s)" and "currentMode s = Auto"
  shows "effective (setLayerType t s) = RenderedAnimated"
proof -
  define s1 where "s1 = (if isPlaying s then pause s else s)"
  define s2 where "s2 = s1\<lparr>currentLayerType := normalizeLayerType t\<rparr>"
  define s4 where "s4 = removeIfOn (rainLayer (removeIfOn (radarLayer s2) s2)) (removeIfOn (radarLayer s2) s2)"
  define s5 where "s5 = s4\<lparr>radarLayer := Some (tileLayer (getStaticLayerUrl (normalizeLayerType t)) False s4),
                     nextLayerId := Suc (nextLayerId s4)\<rparr>"
  define s6 where "s6 = s5\<lparr>rainLayer := None, frameIndex := int (frameCount s5) - 1\<rparr>"
  note u = setLayerType_unfold [OF s1_def s2_def s4_def s5_def s6_def]
  have n: "0 < frameCount s6" using u(4,5) assms(2) by simp
  have e: "frameIndex s6 + int (frameCount s6) = 2 * int (frameCount s6) - 1"
    using u(5,7) by linarith
  have "js_rem (frameIndex s6 + int (frameCount s6)) (int (frameCount s6)) = int (frameCount s6) - 1"
    unfolding e using n by (intro js_rem_last) simp
  then have r: "0 \<le> js_rem (frameIndex s6 + int (frameCount s6)) (int (frameCount s6))"
    using n by simp
  have some: "rainLayer (showFrame (frameIndex s6) s6) \<noteq> None"
    using showFrame_overlay [OF n r] by auto
  have wf: "layers_wf (showFrame (frameIndex s6) s6)"
    using u(3) assms(1) by (simp add: layers_wf_showFrame)
  have "effective (setMode Auto (showFrame (frameIndex s6) s6)) = RenderedAnimated"
    using wf some by (rule setMode_Auto_effective)
  then show ?thesis
    using u(1,4) assms(2,3) by (simp add: Let_def effective_timer)
qed

subsection \<open>Overlays after a refresh\<close>

lemma layers_wf_removeLayer: "layers_wf s \<Longrightarrow> layers_wf (removeLayer l s)"
  unfolding layers_wf_def by (auto simp add: removeLayer_def)

lemma layers_wf_update:
  "layers_wf (s\<lparr>rainFrames := a\<rparr>) = layers_wf s"
  "layers_wf (s\<lparr>satelliteFrames := b\<rparr>) = layers_wf s"
  "layers_wf (s\<lparr>pendingPrimary := p\<rparr>) = layers_wf s"
  "layers_wf (s\<lparr>pendingSecondary := q\<rparr>) = layers_wf s"
  by (simp_all add: layers_wf_def)

lemma layers_wf_finishRefresh: "layers_wf s \<Longrightarrow> layers_wf (finishRefresh s)"
  by (simp add: finishRefresh_def Let_def layers_wf_setMode layers_wf_showFrame
      layers_wf_removeLayer split: option.split)

lemma layers_wf_storeSatelliteFrames:
  "layers_wf s \<Longrightarrow> layers_wf (storeSatelliteFrames fs s)"
  by (simp add: storeSatelliteFrames_def layers_wf_finishRefresh layers_wf_update)

lemma layers_wf_afterPrimary:
  "layers_wf s \<Longrightarrow> layers_wf (initRadarAnimation_afterPrimary sn r s)"
  by (simp add: initRadarAnimation_afterPrimary_def Let_def layers_wf_setMode layers_wf_update
      layers_wf_storeSatelliteFrames split: response.split option.split)

lemma layers_wf_afterSecondary:
  "layers_wf s \<Longrightarrow> layers_wf (initRadarAnimation_afterSecondary sn r s)"
  by (simp add: initRadarAnimation_afterSecondary_def layers_wf_update
      layers_wf_storeSatelliteFrames)

lemma last_index_in_range:
  "0 < n \<Longrightarrow> 0 \<le> js_rem (int n - 1 + int n) (int n)"
proof -
  assume "0 < n"
  then have "0 \<le> int n - 1 + int n" "0 < int n" by simp_all
  then show ?thesis by (simp add: js_rem_nonneg)
qed

text \<open>What the end of a refresh renders.\<close>

lemma finishRefresh_empty_static:
  assumes "layers_wf s" and "radarLayer s \<noteq> None" and "frameCount s = 0"
  shows "effective (finishRefresh s) = RenderedStatic \<and> currentMode (finishRefresh s) = Static"
  using assms by (simp add: finishRefresh_def setMode_Static_effective setMode_keeps)

lemma finishRefresh_auto_animated:
  assumes "layers_wf s" and "0 < frameCount s" and "currentMode s = Auto"
  shows "effective (finishRefresh s) = RenderedAnimated \<and> currentMode (finishRefresh s) = Auto"
proof -
  define s3 where "s3 = showFrame (int (frameCount s) - 1) s"
  define s4 where "s4 = setMode (currentMode s3) s3"
  have m3: "currentMode s3 = Auto" unfolding s3_def using assms(3) by (simp add: showFrame_keeps)
  have some: "rainLayer s3 \<noteq> None"
    unfolding s3_def using showFrame_overlay [OF assms(2) last_index_in_range [OF assms(2)]] by auto
  have wf: "layers_wf s3" unfolding s3_def using assms(1) by (rule layers_wf_showFrame)
  have e4: "effective s4 = RenderedAnimated"
    unfolding s4_def m3 using wf some by (rule setMode_Auto_effective)
  have m4: "currentMode s4 = Auto" unfolding s4_def m3 by (simp add: setMode_keeps)
  have "\<not> staticOn s4" using e4 by (simp add: effective_def split: if_splits)
  then have "finishRefresh s = s4"
    using assms(2) unfolding s4_def s3_def
    by (auto simp add: finishRefresh_def Let_def staticOn_def split: option.splits)
  then show ?thesis using e4 m4 by simp
qed

lemma finishRefresh_static_stays:
  assumes "layers_wf s" and "radarLayer s \<noteq> None" and "currentMode s = Static"
  shows "effective (finishRefresh s) = RenderedStatic \<and> currentMode (finishRefresh s) = Static"
proof (cases "0 < frameCount s")
  case True
  define s3 where "s3 = showFrame (int (frameCount s) - 1) s"
  define s4 where "s4 = setMode (currentMode s3) s3"
  have m3: "currentMode s3 = Static" unfolding s3_def using assms(3) by (simp add: showFrame_keeps)
  have wf: "layers_wf s3" unfolding s3_def using assms(1) by (rule layers_wf_showFrame)
  have rl: "radarLayer s3 \<noteq> None" unfolding s3_def using assms(2) by (simp add: showFrame_keeps)
  have e4: "effective s4 = RenderedStatic" "currentMode s4 = Static"
    unfolding s4_def m3 using wf rl by (simp_all add: setMode_Static_effective setMode_keeps)
  have "finishRefresh s = s4"
    using True e4(2) unfolding s4_def s3_def
    by (simp add: finishRefresh_def Let_def split: option.split)
  then show ?thesis using e4 by simp
next
  case False
  then show ?thesis using assms by (simp add: finishRefresh_empty_static)
qed

lemma storeSatelliteFrames_frameCount:
  "frameCount (storeSatelliteFrames fs s) =
     frameCount (s\<lparr>satelliteFrames := slice_from (- MAX_FRAMES s) fs\<rparr>)"
  by (simp add: storeSatelliteFrames_def finishRefresh_frameCount)

lemma storeSatelliteFrames_resolves:
  assumes "layers_wf s"
  shows "frameCount (storeSatelliteFrames fs s) = 0 \<Longrightarrow> radarLayer s \<noteq> None \<Longrightarrow>
           effective (storeSatelliteFrames fs s) = RenderedStatic \<and>
           currentMode (storeSatelliteFrames fs s) = Static"
    and "0 < frameCount (storeSatelliteFrames fs s) \<Longrightarrow> currentMode s = Auto \<Longrightarrow>
           effective (storeSatelliteFrames fs s) = RenderedAnimated \<and>
           currentMode (storeSatelliteFrames fs s) = Auto"
    and "currentMode s = Static \<Longrightarrow> radarLayer s \<noteq> None \<Longrightarrow>
           effective (storeSatelliteFrames fs s) = RenderedStatic \<and>
           currentMode (storeSatelliteFrames fs s) = Static"
proof -
  let ?s = "s\<lparr>satelliteFrames := slice_from (- MAX_FRAMES s) fs\<rparr>"
  have wf: "layers_wf ?s" using assms by (simp add: layers_wf_update)
  have eq: "storeSatelliteFrames fs s = finishRefresh ?s" by (simp add: storeSatelliteFrames_def)
  have fc: "frameCount (storeSatelliteFrames fs s) = frameCount ?s"
    by (rule storeSatelliteFrames_frameCount)
  show "effective (storeSatelliteFrames fs s) = RenderedStatic \<and>
        currentMode (storeSatelliteFrames fs s) = Static"
    if "frameCount (storeSatelliteFrames fs s) = 0" "radarLayer s \<noteq> None"
    unfolding eq using that finishRefresh_empty_static [OF wf] fc by simp
  show "effective (storeSatelliteFrames fs s) = RenderedAnimated \<and>
        currentMode (storeSatelliteFrames fs s) = Auto"
    if "0 < frameCount (storeSatelliteFrames fs s)" "currentMode s = Auto"
    unfolding eq using that finishRefresh_auto_animated [OF wf] fc by simp
  show "effective (storeSatelliteFrames fs s) = RenderedStatic \<and>
        currentMode (storeSatelliteFrames fs s) = Static"
    if "currentMode s = Static" "radarLayer s \<noteq> None"
    unfolding eq using that finishRefresh_static_stays [OF wf] by simp
qed

text \<open>The two ways in which a refresh ends in \<^verbatim>\<open>setMode('static')\<close> or in the last step.\<close>

lemma afterPrimary_failure:
  assumes "r = FetchFails \<or> r = NotOk \<or> r = BadJson \<or>
           (\<exists>data. r = Json data \<and> radarFrames sn (MAX_FRAMES s) data = None)"
  shows "initRadarAnimation_afterPrimary sn r s =
           setMode Static (s\<lparr>pendingPrimary := pendingPrimary s - 1\<rparr>)"
  using assms by (auto simp add: initRadarAnimation_afterPrimary_def)

lemma afterPrimary_completes:
  assumes "radarFrames sn (MAX_FRAMES s) data = Some frames" and "primarySatFrames sn data \<noteq> []"
  shows "initRadarAnimation_afterPrimary sn (Json data) s =
           storeSatelliteFrames (primarySatFrames sn data)
             (s\<lparr>pendingPrimary := pendingPrimary s - 1, rainFrames := frames\<rparr>)"
  using assms by (simp add: initRadarAnimation_afterPrimary_def Let_def)

lemma afterPrimary_suspends:
  assumes "radarFrames sn (MAX_FRAMES s) data = Some frames" and "primarySatFrames sn data = []"
  shows "initRadarAnimation_afterPrimary sn (Json data) s =
           s\<lparr>pendingPrimary := pendingPrimary s - 1, rainFrames := frames,
             pendingSecondary := Suc (pendingSecondary s)\<rparr>"
  using assms by (simp add: initRadarAnimation_afterPrimary_def Let_def)

lemma layers_wf_setResolution:
  assumes "layers_wf s"
  shows "layers_wf (setResolution sz s)"
proof -
  define s2 where "s2 = (if isPlaying s then pause s else s)
      \<lparr>TILE_SIZE := sz, FRAME_INTERVAL := (if sz = 512 then 650 else 450)\<rparr>"
  define s4 where "s4 = (removeIfOn (rainLayer s2) s2)\<lparr>rainLayer := None\<rparr>"
  have wf2: "layers_wf s2"
    unfolding s2_def using assms by (simp add: layers_wf_def keeps)
  have wf4: "layers_wf s4"
    using wf2 unfolding s4_def layers_wf_def
    by (auto simp add: map_ops split: option.splits)
  have "setResolution sz s =
      (let s5 = showFrame (frameIndex s4) s4; s6 = setMode (currentMode s5) s5
       in if isPlaying s then play s6 else s6)"
    unfolding s2_def s4_def by (simp add: setResolution_def Let_def)
  then show ?thesis
    using wf4 by (simp add: Let_def layers_wf_timer layers_wf_setMode layers_wf_showFrame)
qed

lemma layers_wf_setRadarOpacity: "layers_wf s \<Longrightarrow> layers_wf (setRadarOpacity v s)"
  unfolding layers_wf_def by (auto simp add: setRadarOpacity_def)

lemma layers_wf_handle: "layers_wf s \<Longrightarrow> layers_wf (handle nav sn e s)"
proof (cases e)
  case (MaxFramesInput p)
  then show "layers_wf s \<Longrightarrow> layers_wf (handle nav sn e s)"
    by (simp add: maxFramesInput_def layers_wf_def)
next
  case (SpeedSlider p)
  then show "layers_wf s \<Longrightarrow> layers_wf (handle nav sn e s)"
    by (simp add: speedSliderInput_def Let_def layers_wf_timer) (simp add: layers_wf_def)
qed (simp_all add: layers_wf_setLayerType playBtnClick_def layers_wf_timer
      frameSliderInput_def layers_wf_showFrame maxFramesChange_def initRadarAnimation_def
      layers_wf_update layers_wf_afterPrimary layers_wf_afterSecondary
      opacitySliderInput_def layers_wf_setRadarOpacity layers_wf_setResolution
      layers_wf_setMode tick_def)

lemma layers_wf_run: "layers_wf s \<Longrightarrow> layers_wf (run nav sn es s)"
  by (induction es arbitrary: s) (simp_all add: layers_wf_handle)

lemma layers_wf_initMap: "layers_wf (initMap nav)"
  by (simp add: layers_wf_def initMap_def)

lemma layers_wf_reachable: "layers_wf (run nav sn es (initMap nav))"
  using layers_wf_initMap by (rule layers_wf_run)

lemma setMode_Static_not_animated:
  assumes "layers_wf s"
  shows "\<not> animatedOn (setMode Static s)"
proof (cases "rainLayer s")
  case None
  then show ?thesis by (simp add: animatedOn_iff setMode_keeps)
next
  case r: (Some r)
  show ?thesis
  proof (cases "radarLayer s")
    case None
    with r show ?thesis by (simp add: animatedOn_iff setMode_def Let_def map_ops)
  next
    case (Some a)
    with r assms have "lid a \<noteq> lid r" unfolding layers_wf_def by blast
    with r Some show ?thesis by (simp add: animatedOn_iff setMode_def Let_def map_ops)
  qed
qed

text \<open>From the initial page on, a static overlay object always exists.\<close>

lemma radarLayer_setLayerType: "radarLayer (setLayerType t s) \<noteq> None"
  by (simp add: setLayerType_def Let_def keeps)

lemma radarLayer_setResolution: "radarLayer (setResolution sz s) = radarLayer s"
  by (simp add: setResolution_def Let_def keeps)

lemma radarLayer_handle: "radarLayer s \<noteq> None \<Longrightarrow> radarLayer (handle nav sn e s) \<noteq> None"
  by (cases e)
     (simp_all add: radarLayer_setLayerType playBtnClick_def keeps frameSliderInput_def
       maxFramesInput_def maxFramesChange_def initRadarAnimation_def afterPrimary_keeps
       afterSecondary_keeps speedSliderInput_def
       Let_def opacitySliderInput_def setRadarOpacity_def radarLayer_setResolution tick_def)

lemma radarLayer_run: "radarLayer s \<noteq> None \<Longrightarrow> radarLayer (run nav sn es s) \<noteq> None"
proof (induction es arbitrary: s)
  case Nil
  then show ?case by simp
next
  case (Cons e es)
  have "radarLayer (handle nav sn e s) \<noteq> None"
    using Cons.prems by (rule radarLayer_handle)
  then have "radarLayer (run nav sn es (handle nav sn e s)) \<noteq> None"
    by (rule Cons.IH)
  then show ?case by simp
qed

lemma static_overlay_reachable: "radarLayer (run nav sn es (initMap nav)) \<noteq> None"
  by (rule radarLayer_run) (simp add: initMap_def)

subsection \<open>Mode resolution\<close>

text \<open>
  Claim C1, as the code resolves the render state.  In a state with well-formed overlay
  bookkeeping (and, where Static is rendered after a refresh, with a static overlay object;
  both hold on the initial page and after every sequence of events):
  \<^item> \<^verbatim>\<open>setLayerType\<close> to a layer type without frames, under the stored mode Auto or Animated,
    renders Static and overwrites the stored mode with Static;
  \<^item> \<^verbatim>\<open>setLayerType\<close> to a layer type with frames, under the stored mode Auto, renders Animated
    and leaves the stored mode Auto;
  \<^item> a refresh whose feed was fetched and read ends with the step that stores the satellite
    frames, either when the second request is answered or, if the feed carries satellite
    frames, when the feed arrives.  After that step: if the active frame list is empty, Static
    is rendered and stored; if it is not empty and the stored mode was Auto, Animated is
    rendered and Auto stays stored; if the stored mode was Static, Static is rendered and
    stays stored, whatever the feed holds, so a feed that recovers after a fallback does not
    bring Animated back;
  \<^item> while such a refresh waits for the answer to its second request, it has changed neither
    what is rendered nor the stored mode;
  \<^item> a refresh whose first request fails (no response, an error status, an unreadable body, or
    a throw while the radar block is read) renders Static and stores Static, whatever the
    frame lists hold and whatever the stored mode was;
  \<^item> \<^verbatim>\<open>setMode(auto)\<close> with frames and an animated overlay object renders Animated and stores
    Auto.
\<close>

theorem auto_mode_resolution:
  assumes "layers_wf s"
  shows "(frameCount (setLayerType t s) = 0 \<and> (currentMode s = Auto \<or> currentMode s = Animated) \<longrightarrow>
            effective (setLayerType t s) = RenderedStatic \<and> currentMode (setLayerType t s) = Static)
       \<and> (0 < frameCount (setLayerType t s) \<and> currentMode s = Auto \<longrightarrow>
            effective (setLayerType t s) = RenderedAnimated \<and> currentMode (setLayerType t s) = Auto)
       \<and> (frameCount (initRadarAnimation_afterSecondary sn r s) = 0 \<and> radarLayer s \<noteq> None \<longrightarrow>
            effective (initRadarAnimation_afterSecondary sn r s) = RenderedStatic \<and>
            currentMode (initRadarAnimation_afterSecondary sn r s) = Static)
       \<and> (0 < frameCount (initRadarAnimation_afterSecondary sn r s) \<and> currentMode s = Auto \<longrightarrow>
            effective (initRadarAnimation_afterSecondary sn r s) = RenderedAnimated \<and>
            currentMode (initRadarAnimation_afterSecondary sn r s) = Auto)
       \<and> (currentMode s = Static \<and> radarLayer s \<noteq> None \<longrightarrow>
            effective (initRadarAnimation_afterSecondary sn r s) = RenderedStatic \<and>
            currentMode (initRadarAnimation_afterSecondary sn r s) = Static)
       \<and> (radarFrames sn (MAX_FRAMES s) data \<noteq> None \<and> primarySatFrames sn data \<noteq> [] \<longrightarrow>
            (frameCount (initRadarAnimation_afterPrimary sn (Json data) s) = 0 \<and>
             radarLayer s \<noteq> None \<longrightarrow>
               effective (initRadarAnimation_afterPrimary sn (Json data) s) = RenderedStatic \<and>
               currentMode (initRadarAnimation_afterPrimary sn (Json data) s) = Static)
          \<and> (0 < frameCount (initRadarAnimation_afterPrimary sn (Json data) s) \<and>
             currentMode s = Auto \<longrightarrow>
               effective (initRadarAnimation_afterPrimary sn (Json data) s) = RenderedAnimated \<and>
               currentMode (initRadarAnimation_afterPrimary sn (Json data) s) = Auto)
          \<and> (currentMode s = Static \<and> radarLayer s \<noteq> None \<longrightarrow>
               effective (initRadarAnimation_afterPrimary sn (Json data) s) = RenderedStatic \<and>
               currentMode (initRadarAnimation_afterPrimary sn (Json data) s) = Static))
       \<and> (radarFrames sn (MAX_FRAMES s) data \<noteq> None \<and> primarySatFrames sn data = [] \<longrightarrow>
            effective (initRadarAnimation_afterPrimary sn (Json data) s) = effective s \<and>
            currentMode (initRadarAnimation_afterPrimary sn (Json data) s) = currentMode s)
       \<and> ((p = FetchFails \<or> p = NotOk \<or> p = BadJson \<or>
           (\<exists>d. p = Json d \<and> radarFrames sn (MAX_FRAMES s) d = None)) \<and> radarLayer s \<noteq> None \<longrightarrow>
            effective (initRadarAnimation_afterPrimary sn p s) = RenderedStatic \<and>
            currentMode (initRadarAnimation_afterPrimary sn p s) = Static)
       \<and> (0 < frameCount s \<and> rainLayer s \<noteq> None \<longrightarrow>
            effective (setMode Auto s) = RenderedAnimated \<and> currentMode (setMode Auto s) = Auto)
       \<and> layers_wf (run nav sn es (initMap nav))
       \<and> radarLayer (run nav sn es (initMap nav)) \<noteq> None"
proof -
  have a: "frameCount (setLayerType t s) = 0 \<and> (currentMode s = Auto \<or> currentMode s = Animated) \<longrightarrow>
            effective (setLayerType t s) = RenderedStatic \<and> currentMode (setLayerType t s) = Static"
    using setLayerType_empty_static [OF assms, of t] by (auto simp add: setLayerType_basic(4))
  have b: "0 < frameCount (setLayerType t s) \<and> currentMode s = Auto \<longrightarrow>
            effective (setLayerType t s) = RenderedAnimated \<and> currentMode (setLayerType t s) = Auto"
    using setLayerType_auto_animated [OF assms, of t] by (auto simp add: setLayerType_basic(4))
  let ?s2 = "s\<lparr>pendingSecondary := pendingSecondary s - 1\<rparr>"
  have wf2: "layers_wf ?s2" using assms by (simp add: layers_wf_update)
  have e2: "initRadarAnimation_afterSecondary sn r s =
      storeSatelliteFrames (secondarySatFrames sn r) ?s2"
    by (simp add: initRadarAnimation_afterSecondary_def)
  note st2 = storeSatelliteFrames_resolves [OF wf2, of "secondarySatFrames sn r"]
  have q2: "radarLayer ?s2 = radarLayer s" "currentMode ?s2 = currentMode s" by simp_all
  have c1: "frameCount (initRadarAnimation_afterSecondary sn r s) = 0 \<and> radarLayer s \<noteq> None \<longrightarrow>
            effective (initRadarAnimation_afterSecondary sn r s) = RenderedStatic \<and>
            currentMode (initRadarAnimation_afterSecondary sn r s) = Static"
    unfolding e2 using st2(1) unfolding q2 by blast
  have c2: "0 < frameCount (initRadarAnimation_afterSecondary sn r s) \<and> currentMode s = Auto \<longrightarrow>
            effective (initRadarAnimation_afterSecondary sn r s) = RenderedAnimated \<and>
            currentMode (initRadarAnimation_afterSecondary sn r s) = Auto"
    unfolding e2 using st2(2) unfolding q2 by blast
  have c3: "currentMode s = Static \<and> radarLayer s \<noteq> None \<longrightarrow>
            effective (initRadarAnimation_afterSecondary sn r s) = RenderedStatic \<and>
            currentMode (initRadarAnimation_afterSecondary sn r s) = Static"
    unfolding e2 using st2(3) unfolding q2 by blast
  have d: "radarFrames sn (MAX_FRAMES s) data \<noteq> None \<and> primarySatFrames sn data \<noteq> [] \<longrightarrow>
          (frameCount (initRadarAnimation_afterPrimary sn (Json data) s) = 0 \<and>
             radarLayer s \<noteq> None \<longrightarrow>
               effective (initRadarAnimation_afterPrimary sn (Json data) s) = RenderedStatic \<and>
               currentMode (initRadarAnimation_afterPrimary sn (Json data) s) = Static)
          \<and> (0 < frameCount (initRadarAnimation_afterPrimary sn (Json data) s) \<and>
             currentMode s = Auto \<longrightarrow>
               effective (initRadarAnimation_afterPrimary sn (Json data) s) = RenderedAnimated \<and>
               currentMode (initRadarAnimation_afterPrimary sn (Json data) s) = Auto)
          \<and> (currentMode s = Static \<and> radarLayer s \<noteq> None \<longrightarrow>
               effective (initRadarAnimation_afterPrimary sn (Json data) s) = RenderedStatic \<and>
               currentMode (initRadarAnimation_afterPrimary sn (Json data) s) = Static)"
  proof
    assume h: "radarFrames sn (MAX_FRAMES s) data \<noteq> None \<and> primarySatFrames sn data \<noteq> []"
    obtain frames where fr: "radarFrames sn (MAX_FRAMES s) data = Some frames" using h by blast
    let ?s1 = "s\<lparr>pendingPrimary := pendingPrimary s - 1, rainFrames := frames\<rparr>"
    have wf1: "layers_wf ?s1" using assms by (simp add: layers_wf_update)
    have e1: "initRadarAnimation_afterPrimary sn (Json data) s =
        storeSatelliteFrames (primarySatFrames sn data) ?s1"
      using fr h by (intro afterPrimary_completes) simp_all
    note st1 = storeSatelliteFrames_resolves [OF wf1, of "primarySatFrames sn data"]
    have q: "radarLayer ?s1 = radarLayer s" "currentMode ?s1 = currentMode s" by simp_all
    show "(frameCount (initRadarAnimation_afterPrimary sn (Json data) s) = 0 \<and>
             radarLayer s \<noteq> None \<longrightarrow>
               effective (initRadarAnimation_afterPrimary sn (Json data) s) = RenderedStatic \<and>
               currentMode (initRadarAnimation_afterPrimary sn (Json data) s) = Static)
          \<and> (0 < frameCount (initRadarAnimation_afterPrimary sn (Json data) s) \<and>
             currentMode s = Auto \<longrightarrow>
               effective (initRadarAnimation_afterPrimary sn (Json data) s) = RenderedAnimated \<and>
               currentMode (initRadarAnimation_afterPrimary sn (Json data) s) = Auto)
          \<and> (currentMode s = Static \<and> radarLayer s \<noteq> None \<longrightarrow>
               effective (initRadarAnimation_afterPrimary sn (Json data) s) = RenderedStatic \<and>
               currentMode (initRadarAnimation_afterPrimary sn (Json data) s) = Static)"
      unfolding e1 using st1 unfolding q by blast
  qed
  have w: "radarFrames sn (MAX_FRAMES s) data \<noteq> None \<and> primarySatFrames sn data = [] \<longrightarrow>
           effective (initRadarAnimation_afterPrimary sn (Json data) s) = effective s \<and>
           currentMode (initRadarAnimation_afterPrimary sn (Json data) s) = currentMode s"
  proof
    assume h: "radarFrames sn (MAX_FRAMES s) data \<noteq> None \<and> primarySatFrames sn data = []"
    obtain frames where fr: "radarFrames sn (MAX_FRAMES s) data = Some frames" using h by blast
    have "initRadarAnimation_afterPrimary sn (Json data) s =
        s\<lparr>pendingPrimary := pendingPrimary s - 1, rainFrames := frames,
          pendingSecondary := Suc (pendingSecondary s)\<rparr>"
      using fr h by (intro afterPrimary_suspends) simp_all
    then show "effective (initRadarAnimation_afterPrimary sn (Json data) s) = effective s \<and>
           currentMode (initRadarAnimation_afterPrimary sn (Json data) s) = currentMode s"
      by (simp add: overlay_defs)
  qed
  have g: "(p = FetchFails \<or> p = NotOk \<or> p = BadJson \<or>
           (\<exists>d. p = Json d \<and> radarFrames sn (MAX_FRAMES s) d = None)) \<and> radarLayer s \<noteq> None \<longrightarrow>
           effective (initRadarAnimation_afterPrimary sn p s) = RenderedStatic \<and>
           currentMode (initRadarAnimation_afterPrimary sn p s) = Static"
  proof
    assume h: "(p = FetchFails \<or> p = NotOk \<or> p = BadJson \<or>
           (\<exists>d. p = Json d \<and> radarFrames sn (MAX_FRAMES s) d = None)) \<and> radarLayer s \<noteq> None"
    let ?s0 = "s\<lparr>pendingPrimary := pendingPrimary s - 1\<rparr>"
    have wf0: "layers_wf ?s0" using assms by (simp add: layers_wf_update)
    have e0: "initRadarAnimation_afterPrimary sn p s = setMode Static ?s0"
      using h by (intro afterPrimary_failure) blast
    have rl: "radarLayer ?s0 \<noteq> None" using h by simp
    show "effective (initRadarAnimation_afterPrimary sn p s) = RenderedStatic \<and>
           currentMode (initRadarAnimation_afterPrimary sn p s) = Static"
      unfolding e0 using setMode_Static_effective [OF wf0 rl] by (simp add: setMode_keeps)
  qed
  have f: "0 < frameCount s \<and> rainLayer s \<noteq> None \<longrightarrow>
            effective (setMode Auto s) = RenderedAnimated \<and> currentMode (setMode Auto s) = Auto"
    using setMode_Auto_effective [OF assms] by (simp add: setMode_keeps)
  have k: "layers_wf (run nav sn es (initMap nav))" by (rule layers_wf_reachable)
  have l: "radarLayer (run nav sn es (initMap nav)) \<noteq> None" by (rule static_overlay_reachable)
  show ?thesis
    by (intro conjI) (fact a, fact b, fact c1, fact c2, fact c3, fact d, fact w, fact g, fact f,
      fact k, fact l)
qed

theorem auto_mode_resolution_witness:
  "layers_wf loadedState \<and> currentMode loadedState = Auto
   \<and> frameCount (setLayerType ''clouds'' loadedState) = 0
   \<and> effective (setLayerType ''clouds'' loadedState) = RenderedStatic
   \<and> currentMode (setLayerType ''clouds'' loadedState) = Static
   \<and> frameCount (setLayerType ''radar'' loadedState) = 4
   \<and> effective (setLayerType ''radar'' loadedState) = RenderedAnimated
   \<and> currentMode (setLayerType ''radar'' loadedState) = Auto
   \<and> frameCount (run exampleNav notNumeric emptyLoad (initMap exampleNav)) = 0
   \<and> effective (run exampleNav notNumeric emptyLoad (initMap exampleNav)) = RenderedStatic
   \<and> frameCount (run exampleNav notNumeric firstLoad (initMap exampleNav)) = 4
   \<and> effective (run exampleNav notNumeric firstLoad (initMap exampleNav)) = RenderedAnimated
   \<and> currentMode (run exampleNav notNumeric firstLoad (initMap exampleNav)) = Auto
   \<and> frameCount (initRadarAnimation_afterPrimary notNumeric (Json fullScenario)
        (run exampleNav notNumeric [RefreshBtn] (initMap exampleNav))) = 4
   \<and> effective (initRadarAnimation_afterPrimary notNumeric (Json fullScenario)
        (run exampleNav notNumeric [RefreshBtn] (initMap exampleNav))) = RenderedAnimated
   \<and> frameCount (initRadarAnimation_afterPrimary notNumeric FetchFails loadedState) = 4
   \<and> effective (initRadarAnimation_afterPrimary notNumeric FetchFails loadedState) = RenderedStatic
   \<and> currentMode (initRadarAnimation_afterPrimary notNumeric FetchFails loadedState) = Static
   \<and> effective (setMode Auto loadedState) = RenderedAnimated"
proof -
  let ?s0 = "initMap exampleNav"
  let ?pe = "run exampleNav notNumeric [RefreshBtn, PrimaryArrives (Json (JObj []))] ?s0"
  let ?pr = "run exampleNav notNumeric [RefreshBtn, PrimaryArrives (Json radarScenario)] ?s0"
  let ?s1 = "run exampleNav notNumeric [RefreshBtn] ?s0"
  have wfL: "layers_wf loadedState" by (simp add: layers_wf_def loadedState_def)
  have wf1: "layers_wf ?s1" by (rule layers_wf_reachable)
  have s1: "MAX_FRAMES ?s1 = 36" "currentMode ?s1 = Auto" "currentLayerType ?s1 = Radar"
    unfolding refresh_initMap using MAX_FRAMES_example by (simp_all add: initMap_def)
  have full: "radarFrames notNumeric (MAX_FRAMES ?s1) fullScenario = Some [100, 200, 300, 400]"
    "primarySatFrames notNumeric fullScenario \<noteq> []"
    unfolding s1(1) using fullScenario_frames fullScenario_sat by simp_all
  have f1: "frameCount (initRadarAnimation_afterPrimary notNumeric (Json fullScenario) ?s1) = 4"
    using afterPrimary_rainFrames [OF full(1)] s1(3)
    by (simp add: frameCount_def afterPrimary_keeps)
  have wfe: "layers_wf ?pe" by (rule layers_wf_reachable)
  have wfr: "layers_wf ?pr" by (rule layers_wf_reachable)
  have pre: "currentMode loadedState = Auto" "0 < frameCount loadedState"
    "rainLayer loadedState \<noteq> None" "radarLayer loadedState \<noteq> None"
    "rainFrames loadedState = [100, 200, 300, 400]" "currentLayerType loadedState = Radar"
    by (simp_all add: loadedState_def frameCount_def)
  have pe: "currentMode ?pe = Auto" "radarLayer ?pe \<noteq> None" "rainFrames ?pe = []"
    "currentLayerType ?pe = Radar" "pendingSecondary ?pe = 1"
    unfolding emptyLoad_pending by (simp_all add: initMap_def)
  have pr: "currentMode ?pr = Auto" "radarLayer ?pr \<noteq> None"
    "rainFrames ?pr = [100, 200, 300, 400]" "currentLayerType ?pr = Radar" "pendingSecondary ?pr = 1"
    unfolding firstLoad_pending by (simp_all add: initMap_def)
  have re: "run exampleNav notNumeric emptyLoad ?s0 =
      initRadarAnimation_afterSecondary notNumeric NotOk ?pe"
    using pe(5) by (simp add: emptyLoad_def)
  have rr: "run exampleNav notNumeric firstLoad ?s0 =
      initRadarAnimation_afterSecondary notNumeric NotOk ?pr"
    using pr(5) by (simp add: firstLoad_def)
  have norm: "normalizeLayerType ''clouds'' = Clouds" "normalizeLayerType ''radar'' = Radar"
    by code_simp+
  have fa: "frameCount (setLayerType ''clouds'' loadedState) = 0"
    by (simp add: frameCount_def setLayerType_basic norm loadedState_def)
  have fb: "frameCount (setLayerType ''radar'' loadedState) = 4"
    by (simp add: frameCount_def setLayerType_basic norm loadedState_def)
  have fe: "frameCount (initRadarAnimation_afterSecondary notNumeric NotOk ?pe) = 0"
    using pe(3,4) by (simp add: frameCount_def afterSecondary_keeps)
  have fr: "frameCount (initRadarAnimation_afterSecondary notNumeric NotOk ?pr) = 4"
    using pr(3,4) by (simp add: frameCount_def afterSecondary_keeps)
  have ff: "frameCount (initRadarAnimation_afterPrimary notNumeric FetchFails loadedState) = 4"
    using pre(5,6)
    by (simp add: frameCount_def initRadarAnimation_afterPrimary_def setMode_keeps)
  note a = auto_mode_resolution [OF wfL, where t = "''clouds''" and p = FetchFails and sn = notNumeric]
  note b = auto_mode_resolution [OF wfL, where t = "''radar''"]
  note c = auto_mode_resolution [OF wfe, where sn = notNumeric and r = NotOk]
  note d = auto_mode_resolution [OF wfr, where sn = notNumeric and r = NotOk]
  have ra: "effective (setLayerType ''clouds'' loadedState) = RenderedStatic"
    "currentMode (setLayerType ''clouds'' loadedState) = Static"
    using a fa pre(1) by simp_all
  have rb: "effective (setLayerType ''radar'' loadedState) = RenderedAnimated"
    "currentMode (setLayerType ''radar'' loadedState) = Auto"
    using b fb pre(1) by simp_all
  have rc: "effective (initRadarAnimation_afterSecondary notNumeric NotOk ?pe) = RenderedStatic"
    using c fe pe(2) by simp
  have rd: "effective (initRadarAnimation_afterSecondary notNumeric NotOk ?pr) = RenderedAnimated"
    "currentMode (initRadarAnimation_afterSecondary notNumeric NotOk ?pr) = Auto"
    using d fr pr(1) by simp_all
  have rf: "effective (initRadarAnimation_afterPrimary notNumeric FetchFails loadedState) = RenderedStatic"
    "currentMode (initRadarAnimation_afterPrimary notNumeric FetchFails loadedState) = Static"
    using a pre(4) by simp_all
  have rg: "effective (setMode Auto loadedState) = RenderedAnimated"
    using a pre(2,3) by simp
  have "radarFrames notNumeric (MAX_FRAMES ?s1) fullScenario \<noteq> None \<and>
        primarySatFrames notNumeric fullScenario \<noteq> [] \<longrightarrow>
        (0 < frameCount (initRadarAnimation_afterPrimary notNumeric (Json fullScenario) ?s1) \<and>
         currentMode ?s1 = Auto \<longrightarrow>
           effective (initRadarAnimation_afterPrimary notNumeric (Json fullScenario) ?s1)
             = RenderedAnimated \<and>
           currentMode (initRadarAnimation_afterPrimary notNumeric (Json fullScenario) ?s1) = Auto)"
    using auto_mode_resolution [OF wf1, where sn = notNumeric and data = fullScenario] by blast
  then have r1: "effective (initRadarAnimation_afterPrimary notNumeric (Json fullScenario) ?s1)
      = RenderedAnimated"
    using full f1 s1(2) by simp
  show ?thesis
    unfolding re rr using wfL pre(1) fa fb fe fr ff ra rb rc rd rf rg f1 r1 by simp
qed

text \<open>The claim as stated fails.  On the initial page (no frames, stored mode Auto)
  \<^verbatim>\<open>setMode(auto)\<close> detaches the static overlay and attaches nothing, so nothing is rendered
  instead of Static.  A load that finds no frames stores Static in place of Auto, and the
  next load, which finds four frames, still renders Static: the render state does not flip
  back, because the stored mode was changed.\<close>

theorem auto_mode_stored_mode_counterexample:
  "frameCount (initMap exampleNav) = 0
   \<and> effective (setMode Auto (initMap exampleNav)) = RenderedOff
   \<and> currentMode (initMap exampleNav) = Auto
   \<and> currentMode (run exampleNav notNumeric emptyLoad (initMap exampleNav)) = Static
   \<and> frameCount (run exampleNav notNumeric (emptyLoad @ firstLoad) (initMap exampleNav)) = 4
   \<and> effective (run exampleNav notNumeric (emptyLoad @ firstLoad) (initMap exampleNav))
       = RenderedStatic
   \<and> currentMode (run exampleNav notNumeric (emptyLoad @ firstLoad) (initMap exampleNav)) = Static"
proof -
  let ?s0 = "initMap exampleNav"
  let ?s1 = "?s0\<lparr>currentMode := Static\<rparr>"
  let ?p = "run exampleNav notNumeric [RefreshBtn, PrimaryArrives (Json radarScenario)] ?s1"
  have r0: "currentMode ?s0 = Auto" "frameCount ?s0 = 0"
    by (simp_all add: initMap_def frameCount_def)
  have off: "effective (setMode Auto ?s0) = RenderedOff"
    by (simp add: initMap_def setMode_def Let_def overlay_defs)
  have p: "?p = ?s1\<lparr>rainFrames := [100, 200, 300, 400], pendingSecondary := 1\<rparr>"
    using radarScenario_frames radarScenario_noSat
    by (simp add: initRadarAnimation_def initRadarAnimation_afterPrimary_def Let_def initMap_def
        RECOMMENDED_MAX_FRAMES_def exampleNav_def DEVICE_MEM_def)
  have wf: "layers_wf (?p\<lparr>pendingSecondary := pendingSecondary ?p - 1\<rparr>)"
    unfolding p by (simp add: layers_wf_def initMap_def)
  have q: "currentMode (?p\<lparr>pendingSecondary := pendingSecondary ?p - 1\<rparr>) = Static"
    "radarLayer (?p\<lparr>pendingSecondary := pendingSecondary ?p - 1\<rparr>) \<noteq> None"
    "rainFrames ?p = [100, 200, 300, 400]" "currentLayerType ?p = Radar" "pendingSecondary ?p = 1"
    unfolding p by (simp_all add: initMap_def)
  have e: "run exampleNav notNumeric (emptyLoad @ firstLoad) ?s0 =
      initRadarAnimation_afterSecondary notNumeric NotOk ?p"
    unfolding run_append emptyLoad_state using q(5) by (simp add: firstLoad_def)
  have fc: "frameCount (initRadarAnimation_afterSecondary notNumeric NotOk ?p) = 4"
    using q(3,4) by (simp add: frameCount_def afterSecondary_keeps)
  have st: "effective (initRadarAnimation_afterSecondary notNumeric NotOk ?p) = RenderedStatic \<and>
            currentMode (initRadarAnimation_afterSecondary notNumeric NotOk ?p) = Static"
    unfolding initRadarAnimation_afterSecondary_def
    using storeSatelliteFrames_resolves(3) [OF wf q(1,2)] by simp
  show ?thesis
    unfolding e using r0 off fc st by (simp add: emptyLoad_state)
qed

subsection \<open>A failed refresh\<close>

text \<open>
  Claim C2, as the code handles a failed refresh.  When the first request of a refresh fails
  (no response, an error status, an unreadable body, or a throw while the radar block is read),
  the refresh ends there: it leaves both frame lists and the frame index as they were, stores
  the mode Static, detaches the animated overlay and (when a static overlay object exists, as
  it does on the initial page and after every sequence of events) renders Static.  It does not
  touch playback: the flag, the stored timer handle and the registrations of the browser are
  what they were, so a timer that was running keeps running.
\<close>

theorem refresh_failure_falls_back:
  assumes "r = FetchFails \<or> r = BadJson \<or> r = NotOk \<or>
           (\<exists>data. r = Json data \<and> radarFrames sn (MAX_FRAMES s) data = None)"
    and "layers_wf s"
  shows "rainFrames (initRadarAnimation_afterPrimary sn r s) = rainFrames s
       \<and> satelliteFrames (initRadarAnimation_afterPrimary sn r s) = satelliteFrames s
       \<and> frameIndex (initRadarAnimation_afterPrimary sn r s) = frameIndex s
       \<and> currentMode (initRadarAnimation_afterPrimary sn r s) = Static
       \<and> \<not> animatedOn (initRadarAnimation_afterPrimary sn r s)
       \<and> (radarLayer s \<noteq> None \<longrightarrow>
            effective (initRadarAnimation_afterPrimary sn r s) = RenderedStatic)
       \<and> isPlaying (initRadarAnimation_afterPrimary sn r s) = isPlaying s
       \<and> animTimer (initRadarAnimation_afterPrimary sn r s) = animTimer s
       \<and> intervals (initRadarAnimation_afterPrimary sn r s) = intervals s
       \<and> pendingSecondary (initRadarAnimation_afterPrimary sn r s) = pendingSecondary s
       \<and> radarLayer (run nav sn es (initMap nav)) \<noteq> None
       \<and> layers_wf (run nav sn es (initMap nav))"
proof -
  let ?s0 = "s\<lparr>pendingPrimary := pendingPrimary s - 1\<rparr>"
  have wf0: "layers_wf ?s0" using assms(2) by (simp add: layers_wf_update)
  have eq: "initRadarAnimation_afterPrimary sn r s = setMode Static ?s0"
    using assms(1) by (intro afterPrimary_failure) blast
  have ps: "pendingSecondary (setMode Static ?s0) = pendingSecondary s"
    by (simp add: setMode_def Let_def map_ops split: option.split)
  have k: "layers_wf (run nav sn es (initMap nav))" by (rule layers_wf_reachable)
  have l: "radarLayer (run nav sn es (initMap nav)) \<noteq> None" by (rule static_overlay_reachable)
  show ?thesis
    unfolding eq using wf0 ps k l
    by (simp add: setMode_keeps setMode_Static_not_animated setMode_Static_effective)
qed

theorem refresh_failure_falls_back_witness:
  "layers_wf playingState \<and> radarLayer playingState \<noteq> None
   \<and> rainFrames (initRadarAnimation_afterPrimary notNumeric FetchFails playingState)
       = [100, 200, 300, 400]
   \<and> currentMode (initRadarAnimation_afterPrimary notNumeric FetchFails playingState) = Static
   \<and> effective (initRadarAnimation_afterPrimary notNumeric FetchFails playingState) = RenderedStatic
   \<and> intervals (initRadarAnimation_afterPrimary notNumeric FetchFails playingState) = [(1, 450)]"
proof -
  have p: "FetchFails = FetchFails \<or> FetchFails = BadJson \<or> FetchFails = NotOk \<or>
      (\<exists>data. FetchFails = Json data \<and>
         radarFrames notNumeric (MAX_FRAMES playingState) data = None)"
    by simp
  have wf: "layers_wf playingState"
    by (simp add: layers_wf_def playingState_def loadedState_def)
  have pre: "radarLayer playingState \<noteq> None" "rainFrames playingState = [100, 200, 300, 400]"
    "intervals playingState = [(1, 450)]"
    by (simp_all add: playingState_def loadedState_def)
  show ?thesis using refresh_failure_falls_back [OF p wf] wf pre by simp
qed

text \<open>The claim as stated fails.  The page loads the radar scenario, the user starts
  playback and asks for a refresh, and the request fails: the four radar frames are still
  there, and the playback timer is still registered and stored.  The same holds when the
  refresh is started by a change of the frame cap, which pauses playback first, and the user
  starts playback again before the request fails.\<close>

theorem refresh_failure_keeps_frames_counterexample:
  "rainFrames (run exampleNav notNumeric (firstLoad @ [PlayBtn, RefreshBtn, PrimaryArrives FetchFails])
      (initMap exampleNav)) = [100, 200, 300, 400]
   \<and> animTimer (run exampleNav notNumeric (firstLoad @ [PlayBtn, RefreshBtn, PrimaryArrives FetchFails])
      (initMap exampleNav)) = Some 1
   \<and> intervals (run exampleNav notNumeric (firstLoad @ [PlayBtn, RefreshBtn, PrimaryArrives FetchFails])
      (initMap exampleNav)) = [(1, 450)]
   \<and> isPlaying (run exampleNav notNumeric (firstLoad @ [PlayBtn, RefreshBtn, PrimaryArrives FetchFails])
      (initMap exampleNav))
   \<and> intervals (run exampleNav notNumeric
        (firstLoad @ [MaxFramesChange, PlayBtn, PrimaryArrives FetchFails])
        (initMap exampleNav)) = [(1, 450)]"
proof -
  have a: "run exampleNav notNumeric (firstLoad @ [PlayBtn, RefreshBtn, PrimaryArrives FetchFails])
      (initMap exampleNav) =
      initRadarAnimation_afterPrimary notNumeric FetchFails (playingState\<lparr>pendingPrimary := 1\<rparr>)"
    unfolding run_append firstLoad_loadedState
    using play_loadedState by (simp add: initRadarAnimation_def playingState_def loadedState_def)
  have b: "run exampleNav notNumeric (firstLoad @ [MaxFramesChange, PlayBtn, PrimaryArrives FetchFails])
      (initMap exampleNav) =
      initRadarAnimation_afterPrimary notNumeric FetchFails (playingState\<lparr>pendingPrimary := 1\<rparr>)"
    unfolding run_append firstLoad_loadedState
    by (simp add: maxFramesChange_def initRadarAnimation_def pause_def playBtnClick_def play_def
        frameCount_def playingState_def loadedState_def numeral_2_eq_2)
  show ?thesis
    unfolding a b
    by (simp add: initRadarAnimation_afterPrimary_def setMode_keeps playingState_def
        loadedState_def)
qed

end
